theory Spec2Isabelle
  imports Main "HOL-Library.Monad_Syntax"
begin

section \<open>C strings and the library calls of server.c and client.c\<close>

text \<open>
  A \<open>char\<close> array is a list of bytes of the array's size. A read of an array as a C string
  (\<open>%s\<close>, \<open>strlen\<close>) yields the bytes before the first NUL; when the array holds no NUL the
  read runs past its end, which C leaves undefined: the model returns \<open>None\<close> there, and
  \<open>None\<close> is passed on by every function that depends on the read.
\<close>

abbreviation NUL :: char where
  "NUL \<equiv> CHR 0x00"

definition local_array :: "nat \<Rightarrow> string \<Rightarrow> string" where
  \<comment> \<open>\<open>char a[n];\<close> without initialiser: the \<open>n\<close> bytes \<open>g\<close> that the stack happened to hold
      (any list \<open>g\<close> is cut or filled to \<open>n\<close> bytes, so that every \<open>g\<close> gives an array of size \<open>n\<close>
      and every array of size \<open>n\<close> is given by some \<open>g\<close>)\<close>
  "local_array n g = take n (g @ replicate n NUL)"

definition c_str :: "string \<Rightarrow> string option" where
  "c_str a = (if NUL \<in> set a then Some (takeWhile (\<lambda>c. c \<noteq> NUL) a) else None)"

definition strlen :: "string \<Rightarrow> nat option" where
  "strlen a = map_option length (c_str a)"

definition strncpy :: "string \<Rightarrow> string \<Rightarrow> nat \<Rightarrow> string" where
  \<comment> \<open>copies the bytes of \<open>src\<close> before its first NUL, at most \<open>n\<close> of them, and fills the rest of
      the first \<open>n\<close> bytes of \<open>dst\<close> with NUL; writes no terminator when \<open>src\<close> has \<open>n\<close> bytes or more
      before its first NUL. At each call of the two programs \<open>src\<close> holds a NUL or at least
      \<open>n\<close> bytes, and \<open>dst\<close> at least \<open>n\<close>\<close>
  "strncpy dst src n =
     (let s = takeWhile (\<lambda>c. c \<noteq> NUL) (take n src)
      in s @ replicate (n - length s) NUL @ drop n dst)"

definition memset :: "string \<Rightarrow> char \<Rightarrow> nat \<Rightarrow> string" where
  "memset a c n = replicate n c @ drop n a"

definition digit_char :: "nat \<Rightarrow> char" where
  "digit_char d = ''0123456789'' ! d"

fun dec_nat :: "nat \<Rightarrow> string" where
  "dec_nat n = (if n < 10 then [digit_char n] else dec_nat (n div 10) @ [digit_char (n mod 10)])"

declare dec_nat.simps [simp del]

definition dec_int :: "int \<Rightarrow> string" where
  \<comment> \<open>the text of \<open>%d\<close>, \<open>%zd\<close> and \<open>%zu\<close>\<close>
  "dec_int i = (if i < 0 then CHR ''-'' # dec_nat (nat (- i)) else dec_nat (nat i))"

text \<open>
  What one \<open>recv\<close> call finds: an error (return value \<open>-1\<close>), or the bytes the kernel has for
  the socket, of which it stores at most the requested count; no bytes is the peer's
  orderly shutdown (return value \<open>0\<close>).
\<close>

datatype recv_outcome = Recv_failed | Recv_bytes string

text \<open>
  What one \<open>send\<close> call of server.c does: it returns (the count of bytes taken, or
  \<open>-1\<close>), or it does not return. server.c calls \<open>send\<close> with flags 0 and leaves
  \<open>SIGPIPE\<close> at its default disposition: on a connection that is already broken at the
  call (the peer has reset it, and the \<open>recv\<close> before has taken the pending error) the
  kernel raises \<open>SIGPIPE\<close>, and the process is terminated inside \<open>send\<close>.
\<close>

datatype send_outcome = Send_returns int | Send_sigpipe

definition sys_recv :: "nat \<Rightarrow> recv_outcome \<Rightarrow> int \<times> string" where
  "sys_recv n r =
     (case r of
        Recv_failed \<Rightarrow> (- 1, [])
      | Recv_bytes bs \<Rightarrow> (int (length (take n bs)), take n bs))"

text \<open>
  The observable behaviour of a process is the sequence of its system calls and of the
  lines it prints. Every \<open>printf\<close> with a format argument is recorded with its rendered
  text (without the newline); the \<open>printf\<close> calls of a constant text (banners and
  commentary) are not recorded. \<open>perror\<close> writes to standard error. A system call is
  recorded with its descriptor and its return value, \<open>accept\<close> with the listening
  descriptor, \<open>recv\<close> also with the count it asks for and \<open>send\<close> with the bytes it is
  handed; a \<open>send\<close> that raised \<open>SIGPIPE\<close> is recorded with the bytes it was handed. A
  process is \<open>Exited\<close> with its exit code, \<open>Killed\<close> by \<open>SIGPIPE\<close>, or \<open>Running\<close>, each
  with what it has done.
\<close>

datatype event =
    Stdout string
  | Perror string
  | Sys_socket int
  | Sys_setsockopt int
  | Sys_bind int int
  | Sys_listen int int
  | Sys_accept int int
  | Sys_connect int int
  | Sys_recv int nat int
  | Sys_send int string int
  | Sys_send_sigpipe int string
  | Sys_close int

datatype proc = Running "event list" | Exited int "event list" | Killed "event list"

fun after :: "event list \<Rightarrow> proc \<Rightarrow> proc" where
  \<comment> \<open>what a process does once it has done \<open>t\<close>\<close>
  "after t (Running u) = Running (t @ u)"
| "after t (Exited n u) = Exited n (t @ u)"
| "after t (Killed u) = Killed (t @ u)"

fun and_then :: "proc \<Rightarrow> event list \<Rightarrow> proc" where
  \<comment> \<open>the statements after a call are reached only when the call returns\<close>
  "and_then (Running t) u = Running (t @ u)"
| "and_then (Exited n t) u = Exited n t"
| "and_then (Killed t) u = Killed t"

section \<open>server.c\<close>

definition PORT :: int where
  "PORT = 9999"

definition BUFFER_SIZE :: nat where
  "BUFFER_SIZE = 256"

definition INET_ADDRSTRLEN :: nat where
  "INET_ADDRSTRLEN = 16"

record ApplicationMessage =
  timestamp :: string
  client_ip :: string
  message :: string
  message_length :: int

definition declare_msg :: "ApplicationMessage \<Rightarrow> ApplicationMessage" where
  \<comment> \<open>\<open>ApplicationMessage msg;\<close> without initialiser: \<open>char[30]\<close>, \<open>char[INET_ADDRSTRLEN]\<close>,
      \<open>char[200]\<close> and an \<open>int\<close>, holding what the stack held\<close>
  "declare_msg g =
     \<lparr> timestamp = local_array 30 (timestamp g),
       client_ip = local_array INET_ADDRSTRLEN (client_ip g),
       message = local_array 200 (message g),
       message_length = message_length g \<rparr>"

definition get_timestamp :: "string \<Rightarrow> nat \<Rightarrow> string \<Rightarrow> string" where
  \<comment> \<open>\<open>strftime\<close> stores the clock's text and a terminator when both fit in \<open>sz\<close> bytes, and
      leaves the array's contents unspecified otherwise: the model keeps the bytes the array
      held, which are any bytes\<close>
  "get_timestamp buffer sz clock =
     (if length clock < sz then clock @ NUL # drop (length clock + 1) buffer else buffer)"

text \<open>
  \<open>timestamp\<close>, \<open>client_ip\<close> and \<open>message\<close> are arrays of \<open>char\<close> that follow one another
  in the struct, with no padding between them. A \<open>%s\<close> read of \<open>msg->timestamp\<close> or of
  \<open>msg->client_ip\<close> that meets no NUL in its array runs on through the arrays after it.
  What follows \<open>message\<close> (padding and the bytes of an \<open>int\<close>) is not modelled: a read
  that meets no NUL up to the end of \<open>message\<close> is undefined.
\<close>

definition process_message :: "ApplicationMessage \<Rightarrow> event list option" where
  "process_message msg = do {
     ts \<leftarrow> c_str (timestamp msg @ client_ip msg @ message msg);
     ip \<leftarrow> c_str (client_ip msg @ message msg);
     m \<leftarrow> c_str (message msg);
     Some [Stdout (''  Timestamp: '' @ ts),
           Stdout (''  Client IP: '' @ ip),
           Stdout (''  Message: '' @ m),
           Stdout (''  Length: '' @ dec_int (message_length msg) @ '' bytes'')]
   }"

definition server_send_via_tcp :: "int \<Rightarrow> string \<Rightarrow> nat \<Rightarrow> send_outcome \<Rightarrow> proc" where
  \<comment> \<open>what \<open>send\<close> returns is printed and not looked at; when \<open>send\<close> raises \<open>SIGPIPE\<close>
      the process ends there\<close>
  "server_send_via_tcp socket_fd data len out =
     (case out of
        Send_returns sent \<Rightarrow>
          Running [Stdout (''  Data Size: '' @ dec_int (int len) @ '' bytes''),
                   Sys_send socket_fd (take len data) sent,
                   Stdout (''  Sent: '' @ dec_int sent @ '' bytes'')]
      | Send_sigpipe \<Rightarrow>
          Killed [Stdout (''  Data Size: '' @ dec_int (int len) @ '' bytes''),
                  Sys_send_sigpipe socket_fd (take len data)])"

definition server_receive_via_tcp ::
  "int \<Rightarrow> string \<Rightarrow> nat \<Rightarrow> recv_outcome \<Rightarrow> string \<times> event list" where
  "server_receive_via_tcp socket_fd buffer max_length inc =
     (let (received, bytes) = sys_recv (max_length - 1) inc;
          stored = bytes @ drop (length bytes) buffer;
          ev = [Stdout (''  Socket FD: '' @ dec_int socket_fd),
                Sys_recv socket_fd (max_length - 1) received]
      in if received > 0
         then (stored[nat received := NUL],
               ev @ [Stdout (''  Received: '' @ dec_int received @ '' bytes'')])
         else (stored, ev))"

definition server_show_network_layer :: "string \<Rightarrow> nat \<Rightarrow> event list option" where
  "server_show_network_layer ip port = do {
     s \<leftarrow> c_str ip;
     Some [Stdout (''  Destination IP: '' @ s @ '' (client)'')]
   }"

definition fill_message :: "ApplicationMessage \<Rightarrow> string \<Rightarrow> string \<Rightarrow> string \<Rightarrow> ApplicationMessage option" where
  \<comment> \<open>lines 178 to 182 of \<open>main\<close>: the four assignments to \<open>msg\<close>\<close>
  "fill_message g clock ip buffer = do {
     let msg = declare_msg g;
     let msg = msg\<lparr>timestamp := get_timestamp (timestamp msg) 30 clock\<rparr>;
     let msg = msg\<lparr>client_ip := strncpy (client_ip msg) ip (INET_ADDRSTRLEN - 1)\<rparr>;
     let msg = msg\<lparr>message := strncpy (message msg) buffer (200 - 1)\<rparr>;
     n \<leftarrow> strlen buffer;
     Some (msg\<lparr>message_length := int n\<rparr>)
   }"

definition ack_text :: "string \<Rightarrow> int \<Rightarrow> string" where
  \<comment> \<open>the format \<open>"SERVER ACK: Received '%s' (%d bytes)"\<close> with its two arguments\<close>
  "ack_text m n =
     ''SERVER ACK: Received '' @ [CHR 0x27] @ m @ [CHR 0x27] @ '' ('' @ dec_int n @ '' bytes)''"

definition format_response :: "string \<Rightarrow> nat \<Rightarrow> ApplicationMessage \<Rightarrow> string option" where
  \<comment> \<open>\<open>snprintf(response, sz, ..., msg.message, msg.message_length)\<close>: at most \<open>sz - 1\<close>
      bytes of the text, then the terminator\<close>
  "format_response response sz msg = do {
     m \<leftarrow> c_str (message msg);
     let out = take (sz - 1) (ack_text m (message_length msg)) @ [NUL];
     Some (out @ drop (length out) response)
   }"

text \<open>
  What the environment supplies in one pass of the accept loop: the return value of
  \<open>accept\<close>, the peer's address as \<open>inet_ntop\<close> writes it (dotted quad, at most 15
  characters) and its port, the clock's text, the bytes the stack holds where \<open>buffer\<close>,
  \<open>msg\<close> and \<open>response\<close> are declared, what \<open>recv\<close> finds and what \<open>send\<close> does.
\<close>

record connection =
  accept_ret :: int
  peer_ip :: string
  peer_port :: nat
  clock_text :: string
  stack_buffer :: string
  stack_msg :: ApplicationMessage
  stack_response :: string
  incoming :: recv_outcome
  send_result :: send_outcome

definition accept_iteration :: "int \<Rightarrow> connection \<Rightarrow> proc option" where
  \<comment> \<open>one pass of the body of \<open>while (1)\<close>, lines 143 to 199: \<open>Running\<close> when the pass reaches
      \<open>continue\<close> or the end of the body\<close>
  "accept_iteration server_socket c =
     (let client_socket = accept_ret c in
      if client_socket < 0
      then Some (Running [Sys_accept server_socket client_socket, Perror ''Accept failed''])
      else do {
        let ip = peer_ip c @ [NUL];
        s \<leftarrow> c_str ip;
        let ev_peer = [Sys_accept server_socket client_socket,
                       Stdout (''    Client IP: '' @ s),
                       Stdout (''    Client Port: '' @ dec_int (int (peer_port c)) @ '' (ephemeral)''),
                       Stdout (''    Server Port: '' @ dec_int PORT)];
        ev_net \<leftarrow> server_show_network_layer ip (peer_port c);
        let buffer = memset (local_array BUFFER_SIZE (stack_buffer c)) NUL BUFFER_SIZE;
        let (buffer, ev_recv) = server_receive_via_tcp client_socket buffer BUFFER_SIZE (incoming c);
        msg \<leftarrow> fill_message (stack_msg c) (clock_text c) ip buffer;
        ev_msg \<leftarrow> process_message msg;
        response \<leftarrow> format_response (local_array BUFFER_SIZE (stack_response c)) BUFFER_SIZE msg;
        r \<leftarrow> c_str response;
        n \<leftarrow> strlen response;
        Some (after (ev_peer @ ev_net @ ev_recv @ ev_msg @ [Stdout (''Response message: '' @ r)])
                (and_then (server_send_via_tcp client_socket response n (send_result c))
                   [Sys_close client_socket]))
      })"

fun accept_loop :: "int \<Rightarrow> connection list \<Rightarrow> proc option" where
  "accept_loop server_socket [] = Some (Running [])"
| "accept_loop server_socket (c # cs) = do {
     p \<leftarrow> accept_iteration server_socket c;
     case p of
       Running t \<Rightarrow> map_option (after t) (accept_loop server_socket cs)
     | Exited n t \<Rightarrow> Some p
     | Killed t \<Rightarrow> Some p
   }"

text \<open>
  The start of the server: the return values of \<open>socket\<close>, \<open>bind\<close> and \<open>listen\<close>. The loop
  has no \<open>break\<close>: a process that has come through the passes of a finite list of
  connections is blocked in the next \<open>accept\<close>, which is \<open>Running\<close>.
\<close>

record startup =
  socket_ret :: int
  bind_ret :: int
  listen_ret :: int

definition server_main :: "startup \<Rightarrow> connection list \<Rightarrow> proc option" where
  "server_main st cs =
     (let server_socket = socket_ret st in
      if server_socket < 0
      then Some (Exited 1 [Sys_socket server_socket, Perror ''Socket creation failed''])
      else
        let ev_socket = [Sys_socket server_socket,
                         Stdout (''    Socket created: FD='' @ dec_int server_socket @ '', Protocol=TCP''),
                         Sys_setsockopt server_socket,
                         Sys_bind server_socket (bind_ret st)] in
        if bind_ret st < 0
        then Some (Exited 1 (ev_socket @ [Perror ''Bind failed'']))
        else
          let ev_bind = ev_socket @ [Stdout (''    Bound to: 0.0.0.0:'' @ dec_int PORT),
                                      Sys_listen server_socket (listen_ret st)] in
          if listen_ret st < 0
          then Some (Exited 1 (ev_bind @ [Perror ''Listen failed'']))
          else map_option (after ev_bind) (accept_loop server_socket cs))"

section \<open>client.c\<close>

text \<open>\<open>BUFFER_SIZE\<close> is 256 in client.c as in server.c.\<close>

definition SERVER_IP :: string where
  "SERVER_IP = ''127.0.0.1''"

definition SERVER_PORT :: int where
  "SERVER_PORT = 9999"

definition check_mark :: string where
  \<comment> \<open>the bytes of the check mark (U+2713, UTF-8) in two format strings of client.c\<close>
  "check_mark = [CHR 0xE2, CHR 0x9C, CHR 0x93]"

definition prepare_message :: "string \<Rightarrow> string \<Rightarrow> nat \<Rightarrow> (string \<times> event list) option" where
  "prepare_message user_input buffer sz = do {
     s \<leftarrow> c_str user_input;
     n \<leftarrow> strlen user_input;
     let ev = [Stdout (''  User Input: '' @ [CHR 0x27] @ s @ [CHR 0x27]),
               Stdout (''  Message Length: '' @ dec_int (int n) @ '' bytes'')];
     let buffer = strncpy buffer user_input (sz - 1);
     let buffer = buffer[sz - 1 := NUL];
     Some (buffer, ev)
   }"

definition client_show_network_layer :: "string \<Rightarrow> int \<Rightarrow> event list option" where
  "client_show_network_layer server_ip port = do {
     s \<leftarrow> c_str server_ip;
     Some [Stdout (''  Server IP: '' @ s), Stdout (''  Server Port: '' @ dec_int port)]
   }"

definition establish_tcp_connection :: "int \<Rightarrow> int \<Rightarrow> proc" where
  \<comment> \<open>the arguments are the return values of \<open>socket\<close> and of \<open>connect\<close>; \<open>Running\<close> is the
      return to \<open>main\<close> with \<open>*socket_fd\<close> set, \<open>Exited 1\<close> is \<open>exit(1)\<close>\<close>
  "establish_tcp_connection socket_fd connect_ret =
     (if socket_fd < 0
      then Exited 1 [Sys_socket socket_fd, Perror ''Socket creation failed'']
      else
        let ev = [Sys_socket socket_fd,
                  Stdout (''    Socket created: FD='' @ dec_int socket_fd @ '', Protocol=TCP/IPv4''),
                  Sys_connect socket_fd connect_ret] in
        if connect_ret < 0
        then Exited 1 (ev @ [Perror ''Connection failed''])
        else Running ev)"

definition client_send_via_tcp :: "int \<Rightarrow> string \<Rightarrow> int \<Rightarrow> event list option" where
  \<comment> \<open>\<open>sent\<close> is what \<open>send\<close> returns\<close>
  "client_send_via_tcp socket_fd data sent = do {
     s \<leftarrow> c_str data;
     n \<leftarrow> strlen data;
     let ev = [Stdout (''      Destination Port: '' @ dec_int SERVER_PORT),
               Stdout (''      Data Length: '' @ dec_int (int n) @ '' bytes''),
               Sys_send socket_fd (take n data) sent];
     Some (if sent > 0
           then ev @ [Stdout (''      '' @ check_mark @ '' Sent: '' @ dec_int sent @ '' bytes'')]
           else ev)
   }"

definition client_receive_via_tcp ::
  "int \<Rightarrow> string \<Rightarrow> nat \<Rightarrow> recv_outcome \<Rightarrow> string \<times> event list" where
  "client_receive_via_tcp socket_fd buffer sz inc =
     (let (received, bytes) = sys_recv (sz - 1) inc;
          stored = bytes @ drop (length bytes) buffer;
          ev = [Sys_recv socket_fd (sz - 1) received]
      in if received > 0
         then (stored[nat received := NUL],
               ev @ [Stdout (''    '' @ check_mark @ '' Received: '' @ dec_int received @ '' bytes'')])
         else (stored, ev))"

definition display_response :: "string \<Rightarrow> event list option" where
  "display_response buffer = do {
     s \<leftarrow> c_str buffer;
     n \<leftarrow> strlen buffer;
     Some [Stdout (''  Message: '' @ [CHR 0x27] @ s @ [CHR 0x27]),
           Stdout (''  Length: '' @ dec_int (int n) @ '' bytes'')]
   }"

text \<open>
  What the environment supplies to one run of the client: the bytes the stack holds where
  \<open>app_buffer\<close> and \<open>response\<close> are declared, the return values of \<open>socket\<close>, \<open>connect\<close>
  and \<open>send\<close>, and what \<open>recv\<close> finds. The client's \<open>send\<close> is the first call on the socket
  after \<open>connect\<close>: an error pending on the connection is what it returns (\<open>-1\<close>), so
  it is given by its return value. \<open>argv\<close> is the argument vector, the program's name
  first, each argument a C string; \<open>argc\<close> is its length.
\<close>

record client_env =
  stack_app_buffer :: string
  stack_client_response :: string
  cl_socket_ret :: int
  cl_connect_ret :: int
  cl_send_ret :: int
  cl_incoming :: recv_outcome

definition client_main :: "client_env \<Rightarrow> string list \<Rightarrow> proc option" where
  "client_main env argv = do {
     let argc = length argv;
     let msg_text = (if argc > 1 then argv ! 1 else ''Hello from TCP Client!'') @ [NUL];
     (app_buffer, ev_app) \<leftarrow>
        prepare_message msg_text (local_array BUFFER_SIZE (stack_app_buffer env)) BUFFER_SIZE;
     ev_net \<leftarrow> client_show_network_layer (SERVER_IP @ [NUL]) SERVER_PORT;
     let socket_fd = cl_socket_ret env;
     case establish_tcp_connection socket_fd (cl_connect_ret env) of
       Exited code ev \<Rightarrow> Some (Exited code (ev_app @ ev_net @ ev))
     | Running ev_conn \<Rightarrow> do {
         ev_send \<leftarrow> client_send_via_tcp socket_fd app_buffer (cl_send_ret env);
         let response =
               memset (local_array BUFFER_SIZE (stack_client_response env)) NUL BUFFER_SIZE;
         let (response, ev_recv) =
               client_receive_via_tcp socket_fd response BUFFER_SIZE (cl_incoming env);
         ev_disp \<leftarrow> display_response response;
         Some (Exited 0 (ev_app @ ev_net @ ev_conn @ ev_send @ ev_recv @ ev_disp
                         @ [Sys_close socket_fd]))
       }
   }"

section \<open>What a pass of the accept loop and a run of the client are observed to do\<close>

definition received_buffer :: "connection \<Rightarrow> string" where
  \<comment> \<open>\<open>buffer\<close> after lines 173 to 175 of server.c\<close>
  "received_buffer c =
     fst (server_receive_via_tcp (accept_ret c)
            (memset (local_array BUFFER_SIZE (stack_buffer c)) NUL BUFFER_SIZE)
            BUFFER_SIZE (incoming c))"

definition message_of :: "connection \<Rightarrow> ApplicationMessage option" where
  \<comment> \<open>\<open>msg\<close> after line 182 of server.c\<close>
  "message_of c =
     fill_message (stack_msg c) (clock_text c) (peer_ip c @ [NUL]) (received_buffer c)"

definition response_for :: "connection \<Rightarrow> string option" where
  \<comment> \<open>the C string that lines 173 to 190 of server.c leave in \<open>response\<close>, the commentary
      of \<open>process_message\<close> apart\<close>
  "response_for c = do {
     msg \<leftarrow> message_of c;
     response \<leftarrow> format_response (local_array BUFFER_SIZE (stack_response c)) BUFFER_SIZE msg;
     c_str response
   }"

definition reads_defined :: "connection \<Rightarrow> bool" where
  \<comment> \<open>each of the three string reads of \<open>process_message\<close> meets a NUL before the end of
      \<open>message\<close>\<close>
  "reads_defined c =
     (case message_of c of None \<Rightarrow> False | Some msg \<Rightarrow> process_message msg \<noteq> None)"

fun is_syscall :: "event \<Rightarrow> bool" where
  "is_syscall (Stdout s) = False"
| "is_syscall (Perror s) = False"
| "is_syscall e = True"

definition syscalls :: "event list \<Rightarrow> event list" where
  "syscalls t = filter is_syscall t"

definition stderr_lines :: "event list \<Rightarrow> string list" where
  "stderr_lines t = concat (map (\<lambda>e. case e of Perror s \<Rightarrow> [s] | _ \<Rightarrow> []) t)"

definition stdout_lines :: "event list \<Rightarrow> string list" where
  "stdout_lines t = concat (map (\<lambda>e. case e of Stdout s \<Rightarrow> [s] | _ \<Rightarrow> []) t)"

definition payloads :: "event list \<Rightarrow> string list" where
  \<comment> \<open>the bytes handed to \<open>send\<close>, call after call\<close>
  "payloads t =
     concat (map (\<lambda>e. case e of Sys_send fd d r \<Rightarrow> [d] | Sys_send_sigpipe fd d \<Rightarrow> [d] | _ \<Rightarrow> []) t)"

definition closed_fds :: "event list \<Rightarrow> int list" where
  "closed_fds t = concat (map (\<lambda>e. case e of Sys_close fd \<Rightarrow> [fd] | _ \<Rightarrow> []) t)"

fun exit_code :: "proc \<Rightarrow> int option" where
  "exit_code (Exited n t) = Some n"
| "exit_code (Running t) = None"
| "exit_code (Killed t) = None"

fun trace_of :: "proc \<Rightarrow> event list" where
  "trace_of (Exited n t) = t"
| "trace_of (Running t) = t"
| "trace_of (Killed t) = t"

text \<open>
  The calls one pass of the accept loop is expected to make when its \<open>accept\<close> succeeds,
  its response is defined and its \<open>send\<close> returns: \<open>accept\<close>, one \<open>recv\<close> of at most 255
  bytes, one \<open>send\<close> that is handed the whole response, and \<open>close\<close>, in this order.
\<close>

definition pass_calls :: "int \<Rightarrow> connection \<Rightarrow> event list" where
  "pass_calls s c =
     (case (response_for c, send_result c) of
        (Some r, Send_returns sent) \<Rightarrow>
          [Sys_accept s (accept_ret c),
           Sys_recv (accept_ret c) 255 (fst (sys_recv 255 (incoming c))),
           Sys_send (accept_ret c) r sent,
           Sys_close (accept_ret c)]
      | _ \<Rightarrow> [])"

section \<open>Concrete environments\<close>

definition stack_junk :: ApplicationMessage where
  "stack_junk = \<lparr> timestamp = replicate 30 (CHR ''?''), client_ip = replicate 16 (CHR ''?''),
                   message = replicate 200 (CHR ''?''), message_length = 7 \<rparr>"

definition hello_connection :: connection where
  "hello_connection =
     \<lparr> accept_ret = 4, peer_ip = ''127.0.0.1'', peer_port = 50000,
       clock_text = ''2026-11-02 10:00:00'',
       stack_buffer = replicate 256 (CHR ''?''), stack_msg = stack_junk,
       stack_response = replicate 256 (CHR ''?''),
       incoming = Recv_bytes ''HELLO'', send_result = Send_returns 38 \<rparr>"

definition empty_connection :: connection where
  \<comment> \<open>a peer with an address of 15 characters that shuts down without sending\<close>
  "empty_connection =
     hello_connection\<lparr>peer_ip := ''192.168.100.100'', incoming := Recv_bytes [],
                       send_result := Send_returns 33\<rparr>"

definition reset_connection :: connection where
  \<comment> \<open>a peer that resets the connection: \<open>recv\<close> fails and \<open>send\<close> raises \<open>SIGPIPE\<close>\<close>
  "reset_connection = hello_connection\<lparr>incoming := Recv_failed, send_result := Send_sigpipe\<rparr>"

definition send_error_connection :: connection where
  \<comment> \<open>a peer that sends \<open>HELLO\<close> and then resets: \<open>recv\<close> delivers the bytes, \<open>send\<close> returns
      \<open>-1\<close>\<close>
  "send_error_connection = hello_connection\<lparr>send_result := Send_returns (- 1)\<rparr>"

definition long_connection :: connection where
  \<comment> \<open>200 bytes \<open>A\<close> arrive; the last byte of \<open>msg.message\<close> holds \<open>?\<close> from the stack\<close>
  "long_connection = hello_connection\<lparr>incoming := Recv_bytes (replicate 200 (CHR ''A''))\<rparr>"

definition long_connection_zero :: connection where
  \<comment> \<open>the same 200 bytes; the stack holds NUL bytes where \<open>msg.message\<close> is declared\<close>
  "long_connection_zero =
     long_connection\<lparr>stack_msg := stack_junk\<lparr>message := replicate 200 NUL\<rparr>\<rparr>"

definition nul_connection :: connection where
  \<comment> \<open>253 bytes arrive, the third of them NUL\<close>
  "nul_connection =
     hello_connection\<lparr>incoming := Recv_bytes (''AB'' @ NUL # replicate 250 (CHR ''A''))\<rparr>"

definition oversized_connection :: connection where
  \<comment> \<open>the 255 bytes \<open>A\<close> that the client sends for an argument of 300 arrive\<close>
  "oversized_connection = hello_connection\<lparr>incoming := Recv_bytes (replicate 255 (CHR ''A''))\<rparr>"

definition oversized_connection_zero :: connection where
  \<comment> \<open>the same 255 bytes; the stack holds NUL bytes where \<open>msg.message\<close> is declared\<close>
  "oversized_connection_zero =
     oversized_connection\<lparr>stack_msg := stack_junk\<lparr>message := replicate 200 NUL\<rparr>\<rparr>"

definition good_start :: startup where
  "good_start = \<lparr> socket_ret = 3, bind_ret = 0, listen_ret = 0 \<rparr>"

definition hello_env :: client_env where
  "hello_env =
     \<lparr> stack_app_buffer = replicate 256 (CHR ''?''),
       stack_client_response = replicate 256 (CHR ''?''),
       cl_socket_ret = 3, cl_connect_ret = 0,
       cl_send_ret = 5, cl_incoming = Recv_bytes ''SERVER ACK: Received 'HELLO' (5 bytes)'' \<rparr>"

definition refused_env :: client_env where
  "refused_env = hello_env\<lparr>cl_connect_ret := - 1\<rparr>"

definition send_error_env :: client_env where
  "send_error_env = hello_env\<lparr>cl_send_ret := - 1\<rparr>"

definition transfer_error_env :: client_env where
  "transfer_error_env = hello_env\<lparr>cl_send_ret := - 1, cl_incoming := Recv_failed\<rparr>"

definition short_send_env :: client_env where
  "short_send_env = hello_env\<lparr>cl_send_ret := 3\<rparr>"

definition oversized_env :: client_env where
  \<comment> \<open>a run in which \<open>send\<close> takes 255 bytes\<close>
  "oversized_env = hello_env\<lparr>cl_send_ret := 255\<rparr>"

section \<open>Facts about the strings and the buffers\<close>

lemma digit_char_not_NUL: "d < 10 \<Longrightarrow> digit_char d \<noteq> NUL"
proof -
  assume "d < 10"
  then have "d \<in> {0, 1, 2, 3, 4, 5, 6, 7, 8, 9}" by auto
  then show ?thesis by (auto simp: digit_char_def)
qed

lemma dec_nat_no_NUL: "NUL \<notin> set (dec_nat n)"
proof (induction n rule: dec_nat.induct)
  case (1 n)
  show ?case
  proof (cases "n < 10")
    case True
    then show ?thesis using digit_char_not_NUL [of n] by (simp add: dec_nat.simps [of n])
  next
    case False
    then show ?thesis using 1 digit_char_not_NUL [of "n mod 10"] by (simp add: dec_nat.simps [of n])
  qed
qed

lemma dec_int_no_NUL: "NUL \<notin> set (dec_int i)"
  by (simp add: dec_int_def dec_nat_no_NUL)

lemma length_dec_nat: "n < 1000 \<Longrightarrow> length (dec_nat n) \<le> 3"
  by (simp add: dec_nat.simps [of n] dec_nat.simps [of "n div 10"] dec_nat.simps [of "n div 10 div 10"])

lemma takeWhile_before_NUL:
  "takeWhile (\<lambda>c. c \<noteq> NUL) (xs @ NUL # ys) = takeWhile (\<lambda>c. c \<noteq> NUL) xs"
  by (induction xs) auto

lemma takeWhile_padded:
  "0 < k \<Longrightarrow> takeWhile (\<lambda>c. c \<noteq> NUL) (xs @ replicate k NUL @ ys) = takeWhile (\<lambda>c. c \<noteq> NUL) xs"
  by (cases k) (simp_all add: takeWhile_before_NUL)

lemma c_str_padded:
  "0 < k \<Longrightarrow> c_str (xs @ replicate k NUL @ ys) = Some (takeWhile (\<lambda>c. c \<noteq> NUL) xs)"
  by (simp add: c_str_def takeWhile_padded)

lemma c_str_terminated: "c_str (xs @ NUL # ys) = Some (takeWhile (\<lambda>c. c \<noteq> NUL) xs)"
  by (simp add: c_str_def takeWhile_before_NUL)

lemma takeWhile_id: "NUL \<notin> set xs \<Longrightarrow> takeWhile (\<lambda>c. c \<noteq> NUL) xs = xs"
  by (induction xs) auto

lemma set_takeWhile_no_NUL: "NUL \<notin> set (takeWhile (\<lambda>c. c \<noteq> NUL) xs)"
  by (induction xs) auto

lemma zeroed_buffer: "memset (local_array 256 g) NUL 256 = replicate 256 NUL"
  by (simp add: memset_def local_array_def)

lemma replicate_update_same: "(replicate k x)[i := x] = replicate k x"
  by (induction k arbitrary: i) (simp_all split: nat.split)

lemma drop_to_last: "length xs = Suc n \<Longrightarrow> drop n xs = [xs ! n]"
  using Cons_nth_drop_Suc [of n xs] by simp

lemma takeWhile_take: "takeWhile P (take n xs) = take n (takeWhile P xs)"
proof (induction xs arbitrary: n)
  case Nil
  then show ?case by simp
next
  case (Cons x xs)
  then show ?case by (cases n) simp_all
qed

lemma received_buffer_bytes:
  "incoming c = Recv_bytes M \<Longrightarrow>
   received_buffer c = take 255 M @ replicate (256 - length (take 255 M)) NUL"
  by (simp add: received_buffer_def zeroed_buffer server_receive_via_tcp_def sys_recv_def
        BUFFER_SIZE_def Let_def list_update_append min_def replicate_update_same)

lemma received_buffer_failed:
  "incoming c = Recv_failed \<Longrightarrow> received_buffer c = replicate 256 NUL"
  by (simp add: received_buffer_def zeroed_buffer server_receive_via_tcp_def sys_recv_def BUFFER_SIZE_def)


lemma strlen_received_buffer:
  "incoming c = Recv_bytes M \<Longrightarrow>
   strlen (received_buffer c) = Some (length (takeWhile (\<lambda>c. c \<noteq> NUL) (take 255 M)))"
  using c_str_padded [of "256 - length (take 255 M)" "take 255 M" "[]"]
  by (simp add: received_buffer_bytes strlen_def)

lemma message_field_short:
  assumes "incoming c = Recv_bytes M" and "length (takeWhile (\<lambda>c. c \<noteq> NUL) M) \<le> 198"
  shows "strncpy dst (received_buffer c) 199 =
           takeWhile (\<lambda>c. c \<noteq> NUL) M
             @ replicate (199 - length (takeWhile (\<lambda>c. c \<noteq> NUL) M)) NUL @ drop 199 dst"
proof -
  let ?m = "takeWhile (\<lambda>c. c \<noteq> NUL) M"
  have k: "0 < 256 - length (take 255 M)" by simp
  have "takeWhile (\<lambda>c. c \<noteq> NUL) (received_buffer c) = takeWhile (\<lambda>c. c \<noteq> NUL) (take 255 M)"
    using takeWhile_padded [OF k, of "take 255 M" "[]"] assms(1)
    by (simp add: received_buffer_bytes)
  then have "takeWhile (\<lambda>c. c \<noteq> NUL) (take 199 (received_buffer c)) = take 199 (take 255 ?m)"
    by (simp only: takeWhile_take)
  also have "\<dots> = ?m" using assms(2) by simp
  finally show ?thesis by (simp add: strncpy_def Let_def)
qed

lemma strlen_received_prefix:
  assumes "incoming c = Recv_bytes M" and "length (takeWhile (\<lambda>c. c \<noteq> NUL) M) \<le> 198"
  shows "strlen (received_buffer c) = Some (length (takeWhile (\<lambda>c. c \<noteq> NUL) M))"
  using assms by (simp add: strlen_received_buffer takeWhile_take)

lemma message_field_long:
  assumes "incoming c = Recv_bytes M" and "199 \<le> length M" and "NUL \<notin> set M"
  shows "strncpy (local_array 200 g) (received_buffer c) 199 = take 199 M @ [local_array 200 g ! 199]"
proof -
  have "take 199 (received_buffer c) = take 199 M"
    using assms by (simp add: received_buffer_bytes min_def)
  moreover have "NUL \<notin> set (take 199 M)" using assms(3) by (auto dest: in_set_takeD)
  ultimately have "takeWhile (\<lambda>c. c \<noteq> NUL) (take 199 (received_buffer c)) = take 199 M"
    by (simp add: takeWhile_id)
  moreover have "length (local_array 200 g) = Suc 199" by (simp add: local_array_def)
  then have "drop 199 (local_array 200 g) = [local_array 200 g ! 199]"
    by (rule drop_to_last)
  ultimately show ?thesis using assms(2) by (simp add: strncpy_def Let_def)
qed

lemma c_str_SomeD: "c_str a = Some m \<Longrightarrow> NUL \<notin> set m"
  by (auto simp: c_str_def set_takeWhile_no_NUL split: if_splits)

lemma ack_text_no_NUL: "NUL \<notin> set m \<Longrightarrow> NUL \<notin> set (ack_text m n)"
  by (simp add: ack_text_def dec_int_no_NUL)

lemma length_ack_text: "length (ack_text m n) = 32 + length m + length (dec_int n)"
  by (simp add: ack_text_def)

lemma strlen_received_buffer_failed:
  "incoming c = Recv_failed \<Longrightarrow> strlen (received_buffer c) = Some 0"
  by (simp add: received_buffer_failed strlen_def c_str_def)

lemma strlen_received_buffer_defined: "\<exists>n. strlen (received_buffer c) = Some n \<and> n \<le> 255"
proof (cases "incoming c")
  case Recv_failed
  then show ?thesis by (simp add: strlen_received_buffer_failed)
next
  case (Recv_bytes M)
  have "length (takeWhile (\<lambda>c. c \<noteq> NUL) (take 255 M)) \<le> length (take 255 M)"
    by (rule length_takeWhile_le)
  then show ?thesis using Recv_bytes by (simp add: strlen_received_buffer)
qed

lemma message_of_fields:
  "\<exists>msg n. message_of c = Some msg \<and> strlen (received_buffer c) = Some n
     \<and> message msg = strncpy (local_array 200 (message (stack_msg c))) (received_buffer c) 199
     \<and> message_length msg = int n"
  using strlen_received_buffer_defined [of c]
  by (auto simp: message_of_def fill_message_def declare_msg_def Let_def)

lemma response_for_eq:
  assumes "message_of c = Some msg" and "c_str (message msg) = Some m"
  shows "response_for c = Some (take 255 (ack_text m (message_length msg)))"
proof -
  have "NUL \<notin> set (take 255 (ack_text m (message_length msg)))"
    using ack_text_no_NUL [OF c_str_SomeD [OF assms(2)]] by (auto dest: in_set_takeD)
  then have "c_str (take 255 (ack_text m (message_length msg)) @ NUL # r)
             = Some (take 255 (ack_text m (message_length msg)))" for r
    by (simp add: c_str_terminated takeWhile_id)
  then show ?thesis
    using assms by (simp add: response_for_def format_response_def BUFFER_SIZE_def Let_def)
qed

lemma response_for_undefined:
  assumes "message_of c = Some msg" and "c_str (message msg) = None"
  shows "response_for c = None"
  using assms by (simp add: response_for_def format_response_def)

lemma response_short:
  assumes "incoming c = Recv_bytes M" and "length (takeWhile (\<lambda>c. c \<noteq> NUL) M) \<le> 198"
  shows "response_for c = Some (ack_text (takeWhile (\<lambda>c. c \<noteq> NUL) M)
                                  (int (length (takeWhile (\<lambda>c. c \<noteq> NUL) M))))"
proof -
  let ?m = "takeWhile (\<lambda>c. c \<noteq> NUL) M"
  obtain msg n where msg: "message_of c = Some msg" "strlen (received_buffer c) = Some n"
      "message msg = strncpy (local_array 200 (message (stack_msg c))) (received_buffer c) 199"
      "message_length msg = int n"
    using message_of_fields [of c] by blast
  have n: "n = length ?m" using msg(2) strlen_received_prefix [OF assms] by simp
  have "message msg = ?m @ replicate (199 - length ?m) NUL @ drop 199 (local_array 200 (message (stack_msg c)))"
    using msg(3) message_field_short [OF assms] by simp
  moreover have "0 < 199 - length ?m" using assms(2) by simp
  ultimately have "c_str (message msg) = Some (takeWhile (\<lambda>c. c \<noteq> NUL) ?m)"
    by (simp only: c_str_padded)
  then have m: "c_str (message msg) = Some ?m" by (simp add: takeWhile_id set_takeWhile_no_NUL)
  have "length (dec_int (int (length ?m))) \<le> 3"
    using assms(2) length_dec_nat [of "length ?m"] by (simp add: dec_int_def)
  then have "length (ack_text ?m (int (length ?m))) \<le> 255"
    using assms(2) by (simp add: length_ack_text)
  then show ?thesis using response_for_eq [OF msg(1) m] msg(4) n by simp
qed

lemma response_long:
  assumes "incoming c = Recv_bytes M" and "NUL \<notin> set M" and "199 \<le> length M"
  shows "\<exists>msg. message_of c = Some msg
           \<and> message msg = take 199 M @ [local_array 200 (message (stack_msg c)) ! 199]
           \<and> message_length msg = int (min 255 (length M))
           \<and> response_for c =
               (if local_array 200 (message (stack_msg c)) ! 199 = NUL
                then Some (ack_text (take 199 M) (int (min 255 (length M))))
                else None)"
proof -
  let ?g = "local_array 200 (message (stack_msg c)) ! 199"
  obtain msg n where msg: "message_of c = Some msg" "strlen (received_buffer c) = Some n"
      "message msg = strncpy (local_array 200 (message (stack_msg c))) (received_buffer c) 199"
      "message_length msg = int n"
    using message_of_fields [of c] by blast
  have nul: "NUL \<notin> set (take 255 M)" "NUL \<notin> set (take 199 M)"
    using assms(2) by (auto dest: in_set_takeD)
  have n: "n = min 255 (length M)"
    using msg(2) assms(1) nul(1) by (simp add: strlen_received_buffer takeWhile_id min.commute)
  have field: "message msg = take 199 M @ [?g]"
    using msg(3) message_field_long [OF assms(1) assms(3) assms(2)] by simp
  have resp: "response_for c = (if ?g = NUL then Some (ack_text (take 199 M) (int n)) else None)"
  proof (cases "?g = NUL")
    case True
    then have "c_str (message msg) = Some (take 199 M)"
      using field nul(2) by (simp add: c_str_terminated takeWhile_id)
    moreover have "length (dec_int (int n)) \<le> 3"
      using n length_dec_nat [of n] by (simp add: dec_int_def)
    then have "length (ack_text (take 199 M) (int n)) \<le> 255"
      by (simp add: length_ack_text)
    ultimately show ?thesis using response_for_eq [OF msg(1)] msg(4) True by simp
  next
    case False
    then have "c_str (message msg) = None"
      using field nul(2) by (simp add: c_str_def)
    then show ?thesis using response_for_undefined [OF msg(1)] False by simp
  qed
  show ?thesis using msg(1) field msg(4) n resp by simp
qed

lemma response_long_value:
  assumes "incoming c = Recv_bytes M" and "NUL \<notin> set M" and "199 \<le> length M"
  shows "response_for c =
           (if local_array 200 (message (stack_msg c)) ! 199 = NUL
            then Some (ack_text (take 199 M) (int (min 255 (length M))))
            else None)"
  using response_long [OF assms] by blast

lemma hello_response:
  "response_for hello_connection = Some ''SERVER ACK: Received 'HELLO' (5 bytes)''"
proof -
  have "incoming hello_connection = Recv_bytes ''HELLO''" by (simp add: hello_connection_def)
  from response_short [OF this] show ?thesis
    by (simp add: ack_text_def dec_int_def dec_nat.simps digit_char_def)
qed

lemma oversized_response_undefined: "response_for oversized_connection = None"
proof -
  have "incoming oversized_connection = Recv_bytes (replicate 255 (CHR ''A''))"
    by (simp add: oversized_connection_def hello_connection_def)
  from response_long_value [OF this] show ?thesis
    by (simp add: oversized_connection_def hello_connection_def stack_junk_def local_array_def)
qed

lemma oversized_response_zero:
  "response_for oversized_connection_zero =
     Some (''SERVER ACK: Received '' @ [CHR 0x27] @ replicate 199 (CHR ''A'') @ [CHR 0x27]
           @ '' (255 bytes)'')"
proof -
  have "incoming oversized_connection_zero = Recv_bytes (replicate 255 (CHR ''A''))"
    by (simp add: oversized_connection_zero_def oversized_connection_def hello_connection_def)
  from response_long_value [OF this] show ?thesis
    by (simp add: oversized_connection_zero_def oversized_connection_def hello_connection_def
        stack_junk_def local_array_def ack_text_def dec_int_def dec_nat.simps digit_char_def)
qed

lemma server_receive_events:
  "syscalls (snd (server_receive_via_tcp fd buf 256 inc)) = [Sys_recv fd 255 (fst (sys_recv 255 inc))]
   \<and> stderr_lines (snd (server_receive_via_tcp fd buf 256 inc)) = []"
  by (simp add: server_receive_via_tcp_def syscalls_def stderr_lines_def Let_def split_beta)

lemma process_message_events:
  "process_message msg = Some ev \<Longrightarrow> syscalls ev = [] \<and> stderr_lines ev = []"
  by (auto simp: process_message_def syscalls_def stderr_lines_def bind_eq_Some_conv)

lemma process_message_reads:
  "process_message msg = Some ev \<Longrightarrow> \<exists>m. c_str (message msg) = Some m"
  by (auto simp: process_message_def bind_eq_Some_conv)

lemma message_short:
  assumes "incoming c = Recv_bytes M" and "length (takeWhile (\<lambda>c. c \<noteq> NUL) M) \<le> 198"
  shows "\<exists>msg. message_of c = Some msg
           \<and> c_str (message msg) = Some (takeWhile (\<lambda>c. c \<noteq> NUL) M)
           \<and> message msg = takeWhile (\<lambda>c. c \<noteq> NUL) M
                 @ replicate (199 - length (takeWhile (\<lambda>c. c \<noteq> NUL) M)) NUL
                 @ drop 199 (local_array 200 (message (stack_msg c)))
           \<and> message_length msg = int (length (takeWhile (\<lambda>c. c \<noteq> NUL) M))"
proof -
  let ?m = "takeWhile (\<lambda>c. c \<noteq> NUL) M"
  obtain msg n where msg: "message_of c = Some msg" "strlen (received_buffer c) = Some n"
      "message msg = strncpy (local_array 200 (message (stack_msg c))) (received_buffer c) 199"
      "message_length msg = int n"
    using message_of_fields [of c] by blast
  have n: "n = length ?m" using msg(2) strlen_received_prefix [OF assms] by simp
  have field: "message msg = ?m @ replicate (199 - length ?m) NUL
                 @ drop 199 (local_array 200 (message (stack_msg c)))"
    using msg(3) message_field_short [OF assms] by simp
  moreover have "0 < 199 - length ?m" using assms(2) by simp
  ultimately have "c_str (message msg) = Some (takeWhile (\<lambda>c. c \<noteq> NUL) ?m)"
    by (simp only: c_str_padded)
  then have "c_str (message msg) = Some ?m" by (simp add: takeWhile_id set_takeWhile_no_NUL)
  then show ?thesis using msg(1) msg(4) n field by simp
qed

lemma message_failed:
  assumes "incoming c = Recv_failed"
  shows "\<exists>msg. message_of c = Some msg \<and> c_str (message msg) = Some [] \<and> message_length msg = 0"
proof -
  obtain msg n where msg: "message_of c = Some msg" "strlen (received_buffer c) = Some n"
      "message msg = strncpy (local_array 200 (message (stack_msg c))) (received_buffer c) 199"
      "message_length msg = int n"
    using message_of_fields [of c] by blast
  have "message msg = [] @ replicate 199 NUL @ drop 199 (local_array 200 (message (stack_msg c)))"
    using msg(3) assms by (simp add: received_buffer_failed strncpy_def)
  then have "c_str (message msg) = Some (takeWhile (\<lambda>c. c \<noteq> NUL) [])"
    by (simp only: c_str_padded zero_less_numeral)
  moreover have "n = 0" using msg(2) assms by (simp add: strlen_received_buffer_failed)
  ultimately show ?thesis using msg(1) msg(4) by simp
qed

lemma response_failed:
  assumes "incoming c = Recv_failed"
  shows "response_for c = Some (ack_text [] 0)"
proof -
  obtain msg where msg: "message_of c = Some msg" "c_str (message msg) = Some []"
      "message_length msg = 0"
    using message_failed [OF assms] by blast
  have "length (ack_text [] 0) \<le> 255"
    by (simp add: length_ack_text dec_int_def dec_nat.simps)
  then show ?thesis using response_for_eq [OF msg(1) msg(2)] msg(3) by simp
qed

lemma c_str_of_suffix: "c_str b = Some m \<Longrightarrow> c_str (a @ b) \<noteq> None"
  by (auto simp: c_str_def split: if_splits)

lemma reads_defined_intro:
  assumes "message_of c = Some msg" and "c_str (message msg) = Some m"
  shows "reads_defined c"
proof -
  have "c_str (client_ip msg @ message msg) \<noteq> None"
    using assms(2) by (rule c_str_of_suffix)
  moreover have "c_str (timestamp msg @ client_ip msg @ message msg) \<noteq> None"
    using c_str_of_suffix [OF assms(2), of "timestamp msg @ client_ip msg"] by simp
  ultimately show ?thesis
    using assms by (auto simp: reads_defined_def process_message_def bind_eq_None_conv)
qed

lemma reads_defined_short:
  assumes "incoming c = Recv_bytes M" and "length (takeWhile (\<lambda>c. c \<noteq> NUL) M) \<le> 198"
  shows "reads_defined c"
  using message_short [OF assms] reads_defined_intro by blast

lemma reads_defined_failed:
  assumes "incoming c = Recv_failed"
  shows "reads_defined c"
  using message_failed [OF assms] reads_defined_intro by blast

lemma syscalls_append: "syscalls (a @ b) = syscalls a @ syscalls b"
  by (simp add: syscalls_def)

lemma stderr_lines_append: "stderr_lines (a @ b) = stderr_lines a @ stderr_lines b"
  by (simp add: stderr_lines_def)

lemma pass_accepted:
  assumes acc: "0 \<le> accept_ret c" and rd: "reads_defined c"
  shows "\<exists>pre r. response_for c = Some r
          \<and> syscalls pre = [Sys_accept s (accept_ret c),
                             Sys_recv (accept_ret c) 255 (fst (sys_recv 255 (incoming c)))]
          \<and> stderr_lines pre = []
          \<and> accept_iteration s c = Some
               (case send_result c of
                  Send_returns sent \<Rightarrow>
                    Running (pre @ [Stdout (''Response message: '' @ r),
                                    Stdout (''  Data Size: '' @ dec_int (int (length r)) @ '' bytes''),
                                    Sys_send (accept_ret c) r sent,
                                    Stdout (''  Sent: '' @ dec_int sent @ '' bytes''),
                                    Sys_close (accept_ret c)])
                | Send_sigpipe \<Rightarrow>
                    Killed (pre @ [Stdout (''Response message: '' @ r),
                                   Stdout (''  Data Size: '' @ dec_int (int (length r)) @ '' bytes''),
                                   Sys_send_sigpipe (accept_ret c) r]))"
proof -
  let ?rx = "server_receive_via_tcp (accept_ret c)
               (memset (local_array BUFFER_SIZE (stack_buffer c)) NUL BUFFER_SIZE)
               BUFFER_SIZE (incoming c)"
  obtain msg evm where msg: "message_of c = Some msg" and evm: "process_message msg = Some evm"
    using rd by (auto simp: reads_defined_def split: option.splits)
  obtain m where m: "c_str (message msg) = Some m"
    using process_message_reads [OF evm] by blast
  define r where "r = take 255 (ack_text m (message_length msg))"
  have resp: "response_for c = Some r"
    using response_for_eq [OF msg m] by (simp add: r_def)
  have nul: "NUL \<notin> set r"
    using ack_text_no_NUL [OF c_str_SomeD [OF m]] by (auto simp: r_def dest: in_set_takeD)
  define rest where "rest = drop (Suc (length r)) (local_array BUFFER_SIZE (stack_response c))"
  have fmt: "format_response (local_array BUFFER_SIZE (stack_response c)) BUFFER_SIZE msg
             = Some (r @ NUL # rest)"
    using m by (simp add: format_response_def BUFFER_SIZE_def Let_def r_def rest_def)
  have cs: "c_str (r @ NUL # rest) = Some r" "strlen (r @ NUL # rest) = Some (length r)"
    using nul by (simp_all add: strlen_def c_str_terminated takeWhile_id)
  have fill: "fill_message (stack_msg c) (clock_text c) (peer_ip c @ [NUL]) (fst ?rx) = Some msg"
    using msg by (simp add: message_of_def received_buffer_def)
  define pre where "pre =
     [Sys_accept s (accept_ret c),
      Stdout (''    Client IP: '' @ takeWhile (\<lambda>c. c \<noteq> NUL) (peer_ip c)),
      Stdout (''    Client Port: '' @ dec_int (int (peer_port c)) @ '' (ephemeral)''),
      Stdout (''    Server Port: '' @ dec_int PORT),
      Stdout (''  Destination IP: '' @ takeWhile (\<lambda>c. c \<noteq> NUL) (peer_ip c) @ '' (client)'')]
     @ snd ?rx @ evm"
  have run: "accept_iteration s c = Some
               (case send_result c of
                  Send_returns sent \<Rightarrow>
                    Running (pre @ [Stdout (''Response message: '' @ r),
                                    Stdout (''  Data Size: '' @ dec_int (int (length r)) @ '' bytes''),
                                    Sys_send (accept_ret c) r sent,
                                    Stdout (''  Sent: '' @ dec_int sent @ '' bytes''),
                                    Sys_close (accept_ret c)])
                | Send_sigpipe \<Rightarrow>
                    Killed (pre @ [Stdout (''Response message: '' @ r),
                                   Stdout (''  Data Size: '' @ dec_int (int (length r)) @ '' bytes''),
                                   Sys_send_sigpipe (accept_ret c) r]))"
    using acc fill evm fmt cs
    by (simp add: accept_iteration_def Let_def split_beta c_str_terminated
        server_show_network_layer_def server_send_via_tcp_def pre_def split: send_outcome.split)
  have "syscalls pre = [Sys_accept s (accept_ret c),
                        Sys_recv (accept_ret c) 255 (fst (sys_recv 255 (incoming c)))]"
    using server_receive_events [of "accept_ret c" _ "incoming c"] process_message_events [OF evm]
    by (simp add: pre_def syscalls_def BUFFER_SIZE_def)
  moreover have "stderr_lines pre = []"
    using server_receive_events [of "accept_ret c" _ "incoming c"] process_message_events [OF evm]
    by (simp add: pre_def stderr_lines_def BUFFER_SIZE_def)
  ultimately show ?thesis using resp run by blast
qed

lemma pass_accept_failed:
  "accept_ret c < 0 \<Longrightarrow>
   accept_iteration s c = Some (Running [Sys_accept s (accept_ret c), Perror ''Accept failed''])"
  by (simp add: accept_iteration_def)

lemma pass_returned:
  assumes "0 \<le> accept_ret c" and "reads_defined c" and "send_result c = Send_returns sent"
  shows "\<exists>t. accept_iteration s c = Some (Running t) \<and> syscalls t = pass_calls s c
             \<and> stderr_lines t = []"
proof -
  obtain pre r where r: "response_for c = Some r"
      and pre: "syscalls pre = [Sys_accept s (accept_ret c),
                                Sys_recv (accept_ret c) 255 (fst (sys_recv 255 (incoming c)))]"
         "stderr_lines pre = []"
      and t: "accept_iteration s c = Some
               (Running (pre @ [Stdout (''Response message: '' @ r),
                                Stdout (''  Data Size: '' @ dec_int (int (length r)) @ '' bytes''),
                                Sys_send (accept_ret c) r sent,
                                Stdout (''  Sent: '' @ dec_int sent @ '' bytes''),
                                Sys_close (accept_ret c)]))"
    using pass_accepted [OF assms(1) assms(2), of s] assms(3) by auto
  show ?thesis
    using r pre assms(3)
    by (simp add: t syscalls_append stderr_lines_append pass_calls_def)
       (simp add: syscalls_def stderr_lines_def)
qed

lemma loop_returned:
  assumes "\<forall>c\<in>set cs. 0 \<le> accept_ret c \<and> reads_defined c \<and> send_result c \<noteq> Send_sigpipe"
  shows "\<exists>t. accept_loop s cs = Some (Running t) \<and> syscalls t = concat (map (pass_calls s) cs)
             \<and> stderr_lines t = []"
  using assms
proof (induction cs)
  case Nil
  then show ?case by (simp add: syscalls_def stderr_lines_def)
next
  case (Cons c cs)
  obtain sent where "send_result c = Send_returns sent"
    using Cons.prems by (cases "send_result c") auto
  then obtain t where t: "accept_iteration s c = Some (Running t)" "syscalls t = pass_calls s c"
      "stderr_lines t = []"
    using pass_returned [of c sent s] Cons.prems by auto
  obtain ts where ts: "accept_loop s cs = Some (Running ts)"
      "syscalls ts = concat (map (pass_calls s) cs)" "stderr_lines ts = []"
    using Cons by auto
  show ?case using t ts by (simp add: syscalls_append stderr_lines_append)
qed

lemma prepare_message_eq:
  "prepare_message (u @ [NUL]) (local_array 256 g) 256 =
     Some (take 255 (takeWhile (\<lambda>c. c \<noteq> NUL) u)
             @ replicate (256 - length (take 255 (takeWhile (\<lambda>c. c \<noteq> NUL) u))) NUL,
           [Stdout (''  User Input: '' @ [CHR 0x27] @ takeWhile (\<lambda>c. c \<noteq> NUL) u @ [CHR 0x27]),
            Stdout (''  Message Length: '' @ dec_int (int (length (takeWhile (\<lambda>c. c \<noteq> NUL) u)))
                    @ '' bytes'')])"
proof -
  let ?m = "takeWhile (\<lambda>c. c \<noteq> NUL) u"
  let ?s = "take 255 ?m"
  have cs: "c_str (u @ [NUL]) = Some ?m" by (rule c_str_terminated)
  have "takeWhile (\<lambda>c. c \<noteq> NUL) (take 255 (u @ [NUL])) = ?s"
    by (simp only: takeWhile_take takeWhile_before_NUL)
  moreover have "length (local_array 256 g) = Suc 255" by (simp add: local_array_def)
  then have "drop 255 (local_array 256 g) = [local_array 256 g ! 255]" by (rule drop_to_last)
  ultimately have cp: "strncpy (local_array 256 g) (u @ [NUL]) 255
                       = (?s @ replicate (255 - length ?s) NUL) @ [local_array 256 g ! 255]"
    by (simp add: strncpy_def Let_def)
  have len: "length (?s @ replicate (255 - length ?s) NUL) = 255" by simp
  have "(strncpy (local_array 256 g) (u @ [NUL]) 255)[255 := NUL]
        = (?s @ replicate (255 - length ?s) NUL) @ [NUL]"
    unfolding cp using len by (simp only: list_update_length [of "?s @ replicate (255 - length ?s) NUL", unfolded len])
  also have "\<dots> = ?s @ replicate (256 - length ?s) NUL"
  proof -
    have "256 - length ?s = Suc (255 - length ?s)" by simp
    then show ?thesis by (simp only: append_assoc replicate_append_same replicate_Suc)
  qed
  finally show ?thesis using cs by (simp add: prepare_message_def strlen_def Let_def)
qed

lemma client_send_eq:
  assumes "NUL \<notin> set s" and "length s \<le> 255"
  shows "client_send_via_tcp fd (s @ replicate (256 - length s) NUL) sent =
           Some ([Stdout (''      Destination Port: '' @ dec_int SERVER_PORT),
                  Stdout (''      Data Length: '' @ dec_int (int (length s)) @ '' bytes''),
                  Sys_send fd s sent]
                 @ (if 0 < sent
                    then [Stdout (''      '' @ check_mark @ '' Sent: '' @ dec_int sent @ '' bytes'')]
                    else []))"
proof -
  have "0 < 256 - length s" using assms(2) by simp
  then have "c_str (s @ replicate (256 - length s) NUL @ []) = Some (takeWhile (\<lambda>c. c \<noteq> NUL) s)"
    by (rule c_str_padded)
  then have "c_str (s @ replicate (256 - length s) NUL) = Some s"
    using assms(1) by (simp add: takeWhile_id)
  then show ?thesis by (simp add: client_send_via_tcp_def strlen_def Let_def)
qed

lemma sys_recv_length: "length (snd (sys_recv 255 inc)) \<le> 255"
  by (cases inc) (simp_all add: sys_recv_def)

lemma client_receive_eq:
  "client_receive_via_tcp fd (replicate 256 NUL) 256 inc =
     (snd (sys_recv 255 inc) @ replicate (256 - length (snd (sys_recv 255 inc))) NUL,
      Sys_recv fd 255 (fst (sys_recv 255 inc))
      # (if 0 < fst (sys_recv 255 inc)
         then [Stdout (''    '' @ check_mark @ '' Received: '' @ dec_int (fst (sys_recv 255 inc))
                       @ '' bytes'')]
         else []))"
proof (cases inc)
  case Recv_failed
  then show ?thesis by (simp add: client_receive_via_tcp_def sys_recv_def)
next
  case (Recv_bytes M)
  then show ?thesis
    by (simp add: client_receive_via_tcp_def sys_recv_def Let_def list_update_append min_def
        replicate_update_same)
qed

lemma display_response_eq:
  assumes "length body \<le> 255"
  shows "display_response (body @ replicate (256 - length body) NUL) =
           Some [Stdout (''  Message: '' @ [CHR 0x27] @ takeWhile (\<lambda>c. c \<noteq> NUL) body @ [CHR 0x27]),
                 Stdout (''  Length: '' @ dec_int (int (length (takeWhile (\<lambda>c. c \<noteq> NUL) body)))
                         @ '' bytes'')]"
proof -
  have "0 < 256 - length body" using assms by simp
  then have "c_str (body @ replicate (256 - length body) NUL @ [])
             = Some (takeWhile (\<lambda>c. c \<noteq> NUL) body)"
    by (rule c_str_padded)
  then show ?thesis by (simp add: display_response_def strlen_def)
qed

lemma client_run:
  fixes env :: client_env and argv :: "string list"
  defines "u \<equiv> takeWhile (\<lambda>c. c \<noteq> NUL)
                  (if 1 < length argv then argv ! 1 else ''Hello from TCP Client!'')"
  defines "fd \<equiv> cl_socket_ret env"
  defines "n \<equiv> fst (sys_recv 255 (cl_incoming env))"
  defines "body \<equiv> takeWhile (\<lambda>c. c \<noteq> NUL) (snd (sys_recv 255 (cl_incoming env)))"
  defines "ev0 \<equiv> [Stdout (''  User Input: '' @ [CHR 0x27] @ u @ [CHR 0x27]),
                   Stdout (''  Message Length: '' @ dec_int (int (length u)) @ '' bytes''),
                   Stdout (''  Server IP: '' @ SERVER_IP),
                   Stdout (''  Server Port: '' @ dec_int SERVER_PORT)]"
  shows "client_main env argv = Some
               (if fd < 0
                then Exited 1 (ev0 @ [Sys_socket fd, Perror ''Socket creation failed''])
                else if cl_connect_ret env < 0
                then Exited 1 (ev0 @ [Sys_socket fd,
                       Stdout (''    Socket created: FD='' @ dec_int fd @ '', Protocol=TCP/IPv4''),
                       Sys_connect fd (cl_connect_ret env), Perror ''Connection failed''])
                else Exited 0 (ev0 @ [Sys_socket fd,
                       Stdout (''    Socket created: FD='' @ dec_int fd @ '', Protocol=TCP/IPv4''),
                       Sys_connect fd (cl_connect_ret env),
                       Stdout (''      Destination Port: '' @ dec_int SERVER_PORT),
                       Stdout (''      Data Length: '' @ dec_int (int (length (take 255 u))) @ '' bytes''),
                       Sys_send fd (take 255 u) (cl_send_ret env)]
                     @ (if 0 < cl_send_ret env
                        then [Stdout (''      '' @ check_mark @ '' Sent: '' @ dec_int (cl_send_ret env)
                                      @ '' bytes'')]
                        else [])
                     @ [Sys_recv fd 255 n]
                     @ (if 0 < n
                        then [Stdout (''    '' @ check_mark @ '' Received: '' @ dec_int n @ '' bytes'')]
                        else [])
                     @ [Stdout (''  Message: '' @ [CHR 0x27] @ body @ [CHR 0x27]),
                        Stdout (''  Length: '' @ dec_int (int (length body)) @ '' bytes''),
                        Sys_close fd]))"
proof -
  let ?a = "if 1 < length argv then argv ! 1 else ''Hello from TCP Client!''"
  let ?m = "take 255 u"
  have prep: "prepare_message (?a @ [NUL]) (local_array 256 (stack_app_buffer env)) 256
              = Some (?m @ replicate (256 - length ?m) NUL, take 2 ev0)"
    using prepare_message_eq [of ?a "stack_app_buffer env"] by (simp add: u_def ev0_def)
  have nul: "NUL \<notin> set ?m"
    using set_takeWhile_no_NUL [of ?a] by (auto simp: u_def dest: in_set_takeD)
  have len: "length ?m \<le> 255" by simp
  note snd = client_send_eq [OF nul len, of "cl_socket_ret env" "cl_send_ret env"]
  note rx = client_receive_eq [of "cl_socket_ret env" "cl_incoming env"]
  note disp = display_response_eq [OF sys_recv_length [of "cl_incoming env"]]
  have net: "client_show_network_layer (SERVER_IP @ [NUL]) SERVER_PORT = Some (drop 2 ev0)"
    by (simp add: client_show_network_layer_def SERVER_IP_def c_str_def ev0_def)
  have ev0: "take 2 ev0 @ drop 2 ev0 = ev0" by simp
  show ?thesis
    using prep net snd
    by (simp add: client_main_def BUFFER_SIZE_def zeroed_buffer establish_tcp_connection_def
        Let_def rx disp fd_def n_def body_def append_assoc [symmetric] ev0 del: append_assoc)
qed

lemma response_defined_reads:
  assumes "response_for c \<noteq> None"
  shows "reads_defined c"
proof -
  obtain msg where msg: "message_of c = Some msg"
    using assms by (auto simp: response_for_def bind_eq_None_conv)
  then obtain m where "c_str (message msg) = Some m"
    using assms by (cases "c_str (message msg)") (auto simp: response_for_def format_response_def)
  then show ?thesis using reads_defined_intro [OF msg] by blast
qed

lemma connection_fields:
  "accept_ret hello_connection = 4" "send_result hello_connection = Send_returns 38"
  "incoming hello_connection = Recv_bytes ''HELLO''"
  "accept_ret empty_connection = 4" "send_result empty_connection = Send_returns 33"
  "incoming empty_connection = Recv_bytes []"
  "accept_ret reset_connection = 4" "send_result reset_connection = Send_sigpipe"
  "incoming reset_connection = Recv_failed"
  "accept_ret send_error_connection = 4" "send_result send_error_connection = Send_returns (- 1)"
  "incoming send_error_connection = Recv_bytes ''HELLO''"
  by (simp_all add: hello_connection_def empty_connection_def reset_connection_def
      send_error_connection_def)

lemma ack_text_values:
  "ack_text [] 0 = ''SERVER ACK: Received '' @ [CHR 0x27, CHR 0x27] @ '' (0 bytes)''"
  "ack_text ''HELLO'' 5 = ''SERVER ACK: Received 'HELLO' (5 bytes)''"
  "ack_text ''AB'' 2 = ''SERVER ACK: Received 'AB' (2 bytes)''"
  by (simp_all add: ack_text_def dec_int_def dec_nat.simps digit_char_def)

lemma dec_values:
  "dec_int 0 = ''0''" "dec_int 3 = ''3''" "dec_int 4 = ''4''" "dec_int 5 = ''5''"
  "dec_int 22 = ''22''" "dec_int 33 = ''33''" "dec_int 38 = ''38''" "dec_int 9999 = ''9999''"
  "dec_int (- 1) = ''-1''" "dec_int 200 = ''200''"
  by (simp_all add: dec_int_def dec_nat.simps digit_char_def)

lemma connection_responses:
  "response_for empty_connection = Some (ack_text [] 0)"
  "response_for reset_connection = Some (ack_text [] 0)"
  "response_for send_error_connection = Some (ack_text ''HELLO'' 5)"
  "response_for hello_connection = Some (ack_text ''HELLO'' 5)"
  using response_short [of empty_connection "[]"] response_failed [of reset_connection]
    response_short [of send_error_connection "''HELLO''"]
    response_short [of hello_connection "''HELLO''"]
  by (simp_all add: connection_fields)

lemma client_env_fields:
  "cl_socket_ret hello_env = 3" "cl_connect_ret hello_env = 0" "cl_send_ret hello_env = 5"
  "cl_incoming hello_env = Recv_bytes ''SERVER ACK: Received 'HELLO' (5 bytes)''"
  "cl_socket_ret refused_env = 3" "cl_connect_ret refused_env = - 1"
  "cl_socket_ret send_error_env = 3" "cl_connect_ret send_error_env = 0"
  "cl_send_ret send_error_env = - 1"
  "cl_incoming send_error_env = Recv_bytes ''SERVER ACK: Received 'HELLO' (5 bytes)''"
  "cl_socket_ret transfer_error_env = 3" "cl_connect_ret transfer_error_env = 0"
  "cl_send_ret transfer_error_env = - 1" "cl_incoming transfer_error_env = Recv_failed"
  "cl_socket_ret short_send_env = 3" "cl_connect_ret short_send_env = 0"
  "cl_send_ret short_send_env = 3"
  "cl_incoming short_send_env = Recv_bytes ''SERVER ACK: Received 'HELLO' (5 bytes)''"
  by (simp_all add: hello_env_def refused_env_def send_error_env_def transfer_error_env_def
      short_send_env_def)

lemma oversized_argument_sent:
  "\<exists>t. client_main oversized_env [''./client'', replicate 300 (CHR ''A'')] = Some (Exited 0 t)
      \<and> payloads t = [replicate 255 (CHR ''A'')]"
proof -
  have "cl_socket_ret oversized_env = 3" "cl_connect_ret oversized_env = 0"
    "cl_send_ret oversized_env = 255"
    by (simp_all add: oversized_env_def client_env_fields)
  then show ?thesis
    by (simp add: client_run [of oversized_env] payloads_def takeWhile_id)
qed

section \<open>The acknowledgment\<close>

text \<open>
  C1, as the code has it. When \<open>recv\<close> delivers a message \<open>M\<close> of at most 198 bytes, the
  response is the text \<open>SERVER ACK: Received '\<close>, the bytes of \<open>M\<close> before its first NUL
  byte (all of \<open>M\<close> when it has none), \<open>' (\<close>, the decimal count of those bytes and
  \<open> bytes)\<close>, whatever the stack held: a function of \<open>M\<close> alone. For \<open>HELLO\<close> it is
  \<open>SERVER ACK: Received 'HELLO' (5 bytes)\<close>.
\<close>

theorem ack_of_short_message:
  assumes "incoming c = Recv_bytes M" and "length M \<le> 198"
  shows "response_for c =
           Some (''SERVER ACK: Received '' @ [CHR 0x27] @ takeWhile (\<lambda>b. b \<noteq> NUL) M @ [CHR 0x27]
                 @ '' ('' @ dec_int (int (length (takeWhile (\<lambda>b. b \<noteq> NUL) M))) @ '' bytes)'')"
proof -
  have "length (takeWhile (\<lambda>b. b \<noteq> NUL) M) \<le> length M" by (rule length_takeWhile_le)
  with assms(2) have "length (takeWhile (\<lambda>b. b \<noteq> NUL) M) \<le> 198" by simp
  from response_short [OF assms(1) this] show ?thesis by (simp add: ack_text_def)
qed

text \<open>C1 at the message \<open>HELLO\<close>.\<close>

theorem ack_of_short_message_witness:
  "incoming hello_connection = Recv_bytes ''HELLO'' \<and> length ''HELLO'' \<le> 198
   \<and> response_for hello_connection = Some ''SERVER ACK: Received 'HELLO' (5 bytes)''"
proof -
  have h: "incoming hello_connection = Recv_bytes ''HELLO''"
    by (simp add: hello_connection_def)
  have l: "length ''HELLO'' \<le> 198" by simp
  show ?thesis
    using h ack_of_short_message [OF h l]
    by (simp add: dec_int_def dec_nat.simps digit_char_def)
qed

text \<open>C1 as it was stated fails: the response to \<open>HELLO\<close> is not \<open>ACK: HELLO (5 bytes)\<close>.\<close>

theorem hello_ack_counterexample:
  "response_for hello_connection \<noteq> Some ''ACK: HELLO (5 bytes)''"
  by (simp add: hello_response)

text \<open>
  C10, as the code has it. When \<open>recv\<close> delivers 199 bytes or more and none of them is
  NUL, \<open>strncpy\<close> stores the first 199 in \<open>msg.message\<close> and no terminator: the last byte
  of the field keeps what the stack held. \<open>msg.message_length\<close> is the length of the whole
  received buffer (at most 255), not of the 199 bytes copied. The response is formatted by
  reading the field as a string: it echoes the 199 bytes with the length of the whole
  buffer when the stack byte happens to be NUL, and the read runs past the field
  otherwise.
\<close>

theorem long_message_unterminated:
  assumes "incoming c = Recv_bytes M" and "NUL \<notin> set M" and "199 \<le> length M"
  shows "\<exists>msg. message_of c = Some msg
           \<and> message msg = take 199 M @ [local_array 200 (message (stack_msg c)) ! 199]
           \<and> message_length msg = int (min 255 (length M))
           \<and> response_for c =
               (if local_array 200 (message (stack_msg c)) ! 199 = NUL
                then Some (''SERVER ACK: Received '' @ [CHR 0x27] @ take 199 M @ [CHR 0x27]
                           @ '' ('' @ dec_int (int (min 255 (length M))) @ '' bytes)'')
                else None)"
  using response_long [OF assms] by (auto simp: ack_text_def)

text \<open>
  C10 at 200 bytes \<open>A\<close>: with \<open>?\<close> in every byte of the stack the read of the field runs
  past it; with NUL bytes on the stack the response echoes 199 bytes and says 200.
\<close>

theorem long_message_unterminated_witness:
  "(\<exists>msg. message_of long_connection = Some msg
         \<and> message msg = replicate 199 (CHR ''A'') @ ''?''
         \<and> message_length msg = 200
         \<and> response_for long_connection = None)
   \<and> (\<exists>msg. message_of long_connection_zero = Some msg
         \<and> message msg = replicate 199 (CHR ''A'') @ [NUL]
         \<and> message_length msg = 200
         \<and> response_for long_connection_zero =
             Some (''SERVER ACK: Received '' @ [CHR 0x27] @ replicate 199 (CHR ''A'') @ [CHR 0x27]
                   @ '' (200 bytes)''))"
proof -
  have n: "NUL \<notin> set (replicate 200 (CHR ''A''))" by simp
  have l: "199 \<le> length (replicate 200 (CHR ''A''))" by simp
  have h: "incoming long_connection = Recv_bytes (replicate 200 (CHR ''A''))"
    by (simp add: long_connection_def hello_connection_def)
  have g: "local_array 200 (message (stack_msg long_connection)) ! 199 = CHR ''?''"
    by (simp add: long_connection_def hello_connection_def stack_junk_def local_array_def)
  have hz: "incoming long_connection_zero = Recv_bytes (replicate 200 (CHR ''A''))"
    by (simp add: long_connection_zero_def long_connection_def hello_connection_def)
  have gz: "local_array 200 (message (stack_msg long_connection_zero)) ! 199 = NUL"
    by (simp add: long_connection_zero_def long_connection_def hello_connection_def stack_junk_def
        local_array_def)
  have a: "\<exists>msg. message_of long_connection = Some msg
         \<and> message msg = replicate 199 (CHR ''A'') @ ''?''
         \<and> message_length msg = 200
         \<and> response_for long_connection = None"
    using long_message_unterminated [OF h n l] g by simp
  have b: "\<exists>msg. message_of long_connection_zero = Some msg
         \<and> message msg = replicate 199 (CHR ''A'') @ [NUL]
         \<and> message_length msg = 200
         \<and> response_for long_connection_zero =
             Some (''SERVER ACK: Received '' @ [CHR 0x27] @ replicate 199 (CHR ''A'') @ [CHR 0x27]
                   @ '' (200 bytes)'')"
    using long_message_unterminated [OF hz n l] gz by (simp add: dec_values)
  show ?thesis using a b by (rule conjI)
qed

text \<open>
  C10 as it was stated fails at a message of 253 bytes whose third byte is NUL: \<open>strncpy\<close>
  stops at the NUL and fills the field with NUL bytes, so the field is terminated, and
  the length in the response is 2, the length of the copy that is echoed, not that of
  the 253 bytes received.
\<close>

theorem nul_message_counterexample:
  "length (''AB'' @ NUL # replicate 250 (CHR ''A'')) = 253
   \<and> map_option message (message_of nul_connection) = Some (''AB'' @ replicate 197 NUL @ ''?'')
   \<and> map_option message_length (message_of nul_connection) = Some 2
   \<and> response_for nul_connection = Some ''SERVER ACK: Received 'AB' (2 bytes)''"
proof -
  have inc: "incoming nul_connection = Recv_bytes (''AB'' @ NUL # replicate 250 (CHR ''A''))"
    by (simp add: nul_connection_def hello_connection_def)
  have cs: "takeWhile (\<lambda>c. c \<noteq> NUL) (''AB'' @ NUL # replicate 250 (CHR ''A'')) = ''AB''"
    by simp
  have le: "length (takeWhile (\<lambda>c. c \<noteq> NUL) (''AB'' @ NUL # replicate 250 (CHR ''A''))) \<le> 198"
    by simp
  have g: "drop 199 (local_array 200 (message (stack_msg nul_connection))) = ''?''"
    by (simp add: nul_connection_def hello_connection_def stack_junk_def local_array_def)
  obtain msg where "message_of nul_connection = Some msg"
      "message msg = ''AB'' @ replicate 197 NUL @ ''?''" "message_length msg = 2"
    using message_short [OF inc le] g unfolding cs by auto
  moreover have "response_for nul_connection = Some ''SERVER ACK: Received 'AB' (2 bytes)''"
    using response_short [OF inc le] unfolding cs by (simp add: ack_text_values)
  ultimately show ?thesis by simp
qed

text \<open>
  C5 at an argument of 300 bytes \<open>A\<close>. The client cuts it at 255 bytes, terminates the copy
  and hands the 255 bytes to \<open>send\<close>. The server copies 199 of them into \<open>msg.message\<close>
  without a terminator and takes 255 as the length: with NUL bytes on the stack the
  response echoes 199 bytes and says 255; with \<open>?\<close> on the stack the field has no
  terminator and the response is not defined.
\<close>

theorem oversized_message_ack_mismatch:
  "(\<exists>t. client_main oversized_env [''./client'', replicate 300 (CHR ''A'')] = Some (Exited 0 t)
         \<and> payloads t = [replicate 255 (CHR ''A'')])
   \<and> response_for oversized_connection_zero =
       Some (''SERVER ACK: Received '' @ [CHR 0x27] @ replicate 199 (CHR ''A'') @ [CHR 0x27]
             @ '' (255 bytes)'')
   \<and> response_for oversized_connection = None"
  using oversized_argument_sent oversized_response_zero oversized_response_undefined by simp

text \<open>
  C2. When \<open>recv\<close> returns 0 bytes (the peer has shut down its side without sending),
  \<open>buffer\<close> holds the NUL bytes that \<open>memset\<close> wrote, and the pass goes on as for any
  message, whatever the peer's address and whatever the stack held: the response is
  \<open>SERVER ACK: Received '' (0 bytes)\<close>, its 33 bytes are handed to \<open>send\<close>, and nothing is
  written to standard error. When \<open>send\<close> returns, its result is printed and the socket
  is closed.
\<close>

theorem zero_bytes_acknowledged:
  assumes "incoming c = Recv_bytes []" and "0 \<le> accept_ret c"
  shows "\<exists>pre. syscalls pre = [Sys_accept s (accept_ret c), Sys_recv (accept_ret c) 255 0]
          \<and> stderr_lines pre = []
          \<and> accept_iteration s c = Some
               (case send_result c of
                  Send_returns sent \<Rightarrow>
                    Running (pre @ [Stdout (''Response message: SERVER ACK: Received ''
                                            @ [CHR 0x27, CHR 0x27] @ '' (0 bytes)''),
                                    Stdout ''  Data Size: 33 bytes'',
                                    Sys_send (accept_ret c)
                                      (''SERVER ACK: Received '' @ [CHR 0x27, CHR 0x27]
                                       @ '' (0 bytes)'') sent,
                                    Stdout (''  Sent: '' @ dec_int sent @ '' bytes''),
                                    Sys_close (accept_ret c)])
                | Send_sigpipe \<Rightarrow>
                    Killed (pre @ [Stdout (''Response message: SERVER ACK: Received ''
                                           @ [CHR 0x27, CHR 0x27] @ '' (0 bytes)''),
                                   Stdout ''  Data Size: 33 bytes'',
                                   Sys_send_sigpipe (accept_ret c)
                                     (''SERVER ACK: Received '' @ [CHR 0x27, CHR 0x27]
                                      @ '' (0 bytes)'')]))"
proof -
  have rd: "reads_defined c"
    by (rule reads_defined_short [OF assms(1)]) simp
  have "response_for c = Some (ack_text [] 0)"
    using response_short [OF assms(1)] by simp
  then show ?thesis
    using pass_accepted [OF assms(2) rd, of s] assms(1)
    by (cases "send_result c") (auto simp: ack_text_values sys_recv_def dec_values)
qed

text \<open>
  C2 at a peer whose address has 15 characters, with \<open>?\<close> in every byte of the stack.
\<close>

theorem zero_bytes_acknowledged_witness:
  "\<exists>pre. syscalls pre = [Sys_accept 3 4, Sys_recv 4 255 0]
      \<and> stderr_lines pre = []
      \<and> accept_iteration 3 empty_connection = Some
           (Running (pre @ [Stdout (''Response message: SERVER ACK: Received ''
                                    @ [CHR 0x27, CHR 0x27] @ '' (0 bytes)''),
                            Stdout ''  Data Size: 33 bytes'',
                            Sys_send 4 (''SERVER ACK: Received '' @ [CHR 0x27, CHR 0x27]
                                        @ '' (0 bytes)'') 33,
                            Stdout ''  Sent: 33 bytes'',
                            Sys_close 4]))"
proof -
  have a: "0 \<le> accept_ret empty_connection" by (simp add: connection_fields)
  show ?thesis
    using zero_bytes_acknowledged [OF connection_fields(6) a, of 3]
    by (simp add: connection_fields dec_values)
qed

section \<open>The accept loop\<close>

text \<open>
  C3 at a peer that resets its connection, followed by a peer that sends \<open>HELLO\<close>. The
  \<open>recv\<close> of the first pass returns \<open>-1\<close>, which the pass neither reports nor acts on, and
  its \<open>send\<close> raises \<open>SIGPIPE\<close>: the server is killed there, without \<open>close\<close>, and the
  second connection is never accepted.
\<close>

theorem reset_kills_server:
  "\<exists>t. server_main good_start [reset_connection, hello_connection] = Some (Killed t)
      \<and> syscalls t =
          [Sys_socket 3, Sys_setsockopt 3, Sys_bind 3 0, Sys_listen 3 0,
           Sys_accept 3 4, Sys_recv 4 255 (- 1),
           Sys_send_sigpipe 4 (''SERVER ACK: Received '' @ [CHR 0x27, CHR 0x27] @ '' (0 bytes)'')]
      \<and> stderr_lines t = []"
proof -
  have acc: "0 \<le> accept_ret reset_connection" by (simp add: connection_fields)
  have rd: "reads_defined reset_connection"
    by (rule reads_defined_failed) (simp add: connection_fields)
  obtain pre where pre: "syscalls pre = [Sys_accept 3 4, Sys_recv 4 255 (- 1)]"
      "stderr_lines pre = []"
      and pass: "accept_iteration 3 reset_connection = Some
               (Killed (pre @ [Stdout (''Response message: '' @ ack_text [] 0),
                               Stdout (''  Data Size: '' @ dec_int (int (length (ack_text [] 0)))
                                       @ '' bytes''),
                               Sys_send_sigpipe 4 (ack_text [] 0)]))"
    using pass_accepted [OF acc rd, of 3]
    by (auto simp: connection_fields connection_responses sys_recv_def)
  show ?thesis
    using pre
    by (simp add: server_main_def good_start_def Let_def pass syscalls_append stderr_lines_append
        ack_text_values)
       (simp add: syscalls_def stderr_lines_def)
qed

text \<open>
  C7, as the code has it. For accepted connections whose response is defined and whose
  \<open>send\<close> returns, the calls of the loop are, connection after connection and in this
  order: \<open>accept\<close>, one \<open>recv\<close> of at most 255 bytes, one \<open>send\<close> that is handed the whole
  response, \<open>close\<close>. What \<open>send\<close> returns is an input of the pass that no call depends on:
  \<open>close\<close> follows also when \<open>send\<close> returned \<open>-1\<close> or a short count.
\<close>

theorem passes_in_sequence:
  assumes "\<forall>c\<in>set cs. 0 \<le> accept_ret c \<and> response_for c \<noteq> None \<and> send_result c \<noteq> Send_sigpipe"
  shows "\<exists>t. accept_loop s cs = Some (Running t)
           \<and> syscalls t = concat (map (pass_calls s) cs)
           \<and> (\<forall>c\<in>set cs. \<exists>r sent. response_for c = Some r \<and> send_result c = Send_returns sent
                 \<and> pass_calls s c =
                     [Sys_accept s (accept_ret c),
                      Sys_recv (accept_ret c) 255 (fst (sys_recv 255 (incoming c))),
                      Sys_send (accept_ret c) r sent,
                      Sys_close (accept_ret c)])"
proof -
  have "\<forall>c\<in>set cs. 0 \<le> accept_ret c \<and> reads_defined c \<and> send_result c \<noteq> Send_sigpipe"
    using assms response_defined_reads by blast
  then obtain t where t: "accept_loop s cs = Some (Running t)"
      "syscalls t = concat (map (pass_calls s) cs)"
    using loop_returned [of cs s] by blast
  have "\<exists>r sent. response_for c = Some r \<and> send_result c = Send_returns sent
           \<and> pass_calls s c =
               [Sys_accept s (accept_ret c),
                Sys_recv (accept_ret c) 255 (fst (sys_recv 255 (incoming c))),
                Sys_send (accept_ret c) r sent,
                Sys_close (accept_ret c)]" if "c \<in> set cs" for c
  proof -
    have "response_for c \<noteq> None" and ns: "send_result c \<noteq> Send_sigpipe"
      using assms that by blast+
    then obtain r where r: "response_for c = Some r" by auto
    obtain sent where sent: "send_result c = Send_returns sent"
      using ns by (cases "send_result c") auto
    show ?thesis using r sent by (simp add: pass_calls_def)
  qed
  then show ?thesis using t by blast
qed

text \<open>C7 at two connections, the second with a \<open>send\<close> that returns \<open>-1\<close>.\<close>

theorem passes_in_sequence_witness:
  "\<exists>t. accept_loop 3 [hello_connection, send_error_connection] = Some (Running t)
      \<and> syscalls t =
          [Sys_accept 3 4, Sys_recv 4 255 5,
           Sys_send 4 ''SERVER ACK: Received 'HELLO' (5 bytes)'' 38, Sys_close 4,
           Sys_accept 3 4, Sys_recv 4 255 5,
           Sys_send 4 ''SERVER ACK: Received 'HELLO' (5 bytes)'' (- 1), Sys_close 4]"
proof -
  have h: "\<forall>c\<in>set [hello_connection, send_error_connection].
             0 \<le> accept_ret c \<and> response_for c \<noteq> None \<and> send_result c \<noteq> Send_sigpipe"
    by (simp add: connection_fields connection_responses)
  show ?thesis
    using passes_in_sequence [OF h, of 3]
    by (auto simp: pass_calls_def connection_fields connection_responses ack_text_values sys_recv_def)
qed

text \<open>
  C7 as it was stated fails at a peer that sends \<open>HELLO\<close> and then resets the connection:
  \<open>recv\<close> delivers the 5 bytes, \<open>send\<close> returns \<open>-1\<close> with nothing written, and the next
  call is \<open>close\<close>.
\<close>

theorem send_unwritten_counterexample:
  "map_option (\<lambda>p. syscalls (trace_of p)) (accept_iteration 3 send_error_connection) =
     Some [Sys_accept 3 4, Sys_recv 4 255 5,
           Sys_send 4 ''SERVER ACK: Received 'HELLO' (5 bytes)'' (- 1), Sys_close 4]"
proof -
  have "reads_defined send_error_connection"
    by (rule response_defined_reads) (simp add: connection_responses)
  from pass_returned [OF _ this connection_fields(11), of 3] show ?thesis
    by (auto simp: pass_calls_def connection_fields connection_responses ack_text_values
        sys_recv_def)
qed

section \<open>The client\<close>

text \<open>
  C9. In a run whose \<open>socket\<close> and \<open>connect\<close> calls succeed, the client hands to \<open>send\<close>
  the default \<open>Hello from TCP Client!\<close> when it is given no argument, and otherwise
  the bytes of its first argument (those before a NUL, which an argument cannot hold), at
  most the first 255. Further arguments change nothing.
\<close>

theorem message_argument:
  assumes "0 \<le> cl_socket_ret env" and "0 \<le> cl_connect_ret env"
  shows "(\<exists>t. client_main env [prog] = Some (Exited 0 t)
              \<and> payloads t = [''Hello from TCP Client!''])
         \<and> (\<exists>t. client_main env (prog # a # rest) = Some (Exited 0 t)
              \<and> payloads t = [take 255 (takeWhile (\<lambda>b. b \<noteq> NUL) a)])
         \<and> client_main env (prog # a # rest) = client_main env [prog, a]"
  using assms
  by (simp add: client_run [of env "[prog]"] client_run [of env "prog # a # rest"]
      client_run [of env "[prog, a]"] payloads_def)

text \<open>C9 with no argument, and with the arguments \<open>HELLO\<close> and \<open>more\<close>.\<close>

theorem message_argument_witness:
  "(\<exists>t. client_main hello_env [''./client''] = Some (Exited 0 t)
              \<and> payloads t = [''Hello from TCP Client!''])
   \<and> (\<exists>t. client_main hello_env [''./client'', ''HELLO'', ''more''] = Some (Exited 0 t)
              \<and> payloads t = [''HELLO''])
   \<and> client_main hello_env [''./client'', ''HELLO'', ''more'']
       = client_main hello_env [''./client'', ''HELLO'']"
proof -
  have h: "0 \<le> cl_socket_ret hello_env" "0 \<le> cl_connect_ret hello_env"
    by (simp_all add: client_env_fields)
  have e: "take 255 (takeWhile (\<lambda>b. b \<noteq> NUL) ''HELLO'') = ''HELLO''" by simp
  show ?thesis
    using message_argument [OF h, of "''./client''" "''HELLO''" "[''more'']"] unfolding e .
qed

text \<open>
  C4, as the code has it. The client exits with 1, after one \<open>perror\<close> line, exactly when
  \<open>socket\<close> or \<open>connect\<close> fails. Otherwise it exits with 0 and writes nothing to standard
  error, whatever \<open>send\<close> and \<open>recv\<close> return.
\<close>

theorem client_exit_code:
  "\<exists>t. client_main env argv =
          Some (Exited (if cl_socket_ret env < 0 \<or> cl_connect_ret env < 0 then 1 else 0) t)
      \<and> stderr_lines t =
          (if cl_socket_ret env < 0 then [''Socket creation failed'']
           else if cl_connect_ret env < 0 then [''Connection failed'']
           else [])"
proof (cases "cl_socket_ret env < 0")
  case True
  then show ?thesis by (simp add: client_run [of env argv] stderr_lines_def)
next
  case no_socket_error: False
  show ?thesis
  proof (cases "cl_connect_ret env < 0")
    case True
    with no_socket_error show ?thesis by (simp add: client_run [of env argv] stderr_lines_def)
  next
    case False
    with no_socket_error show ?thesis by (auto simp: client_run [of env argv] stderr_lines_def)
  qed
qed

text \<open>C4 at a refused connection.\<close>

theorem client_exit_code_witness:
  "\<exists>t. client_main refused_env [''./client'', ''HELLO''] = Some (Exited 1 t)
      \<and> stderr_lines t = [''Connection failed'']"
  using client_exit_code [of refused_env "[''./client'', ''HELLO'']"]
  by (simp add: client_env_fields)

text \<open>
  C4 as it was stated fails where \<open>send\<close> and \<open>recv\<close> both return \<open>-1\<close>: the exit code is 0
  and standard error stays empty.
\<close>

theorem transfer_error_counterexample:
  "map_option exit_code (client_main transfer_error_env [''./client'', ''HELLO'']) = Some (Some 0)
   \<and> map_option (\<lambda>p. stderr_lines (trace_of p))
        (client_main transfer_error_env [''./client'', ''HELLO'']) = Some []
   \<and> map_option (\<lambda>p. syscalls (trace_of p))
        (client_main transfer_error_env [''./client'', ''HELLO''])
       = Some [Sys_socket 3, Sys_connect 3 0, Sys_send 3 ''HELLO'' (- 1), Sys_recv 3 255 (- 1),
               Sys_close 3]"
  by (simp add: client_run [of transfer_error_env] client_env_fields stderr_lines_def syscalls_def
      sys_recv_def)

text \<open>
  C6, as the code has it. A run whose \<open>socket\<close> and \<open>connect\<close> calls succeed closes the
  socket once, as its last call, whatever \<open>send\<close> and \<open>recv\<close> return, and exits with 0. A
  run whose \<open>socket\<close> or \<open>connect\<close> call fails exits with 1 and closes nothing.
\<close>

theorem client_closes_after_transfer:
  "\<exists>code t. client_main env argv = Some (Exited code t)
      \<and> (if cl_socket_ret env < 0 \<or> cl_connect_ret env < 0
          then code = 1 \<and> closed_fds t = []
          else code = 0 \<and> closed_fds t = [cl_socket_ret env]
               \<and> last t = Sys_close (cl_socket_ret env))"
proof (cases "cl_socket_ret env < 0 \<or> cl_connect_ret env < 0")
  case True
  then show ?thesis by (auto simp: client_run [of env argv] closed_fds_def)
next
  case False
  then have "0 \<le> cl_socket_ret env" and "0 \<le> cl_connect_ret env" by auto
  then show ?thesis by (auto simp: client_run [of env argv] closed_fds_def)
qed

text \<open>C6 at a run whose \<open>send\<close> and \<open>recv\<close> fail.\<close>

theorem client_closes_after_transfer_witness:
  "\<exists>t. client_main transfer_error_env [''./client'', ''HELLO''] = Some (Exited 0 t)
      \<and> closed_fds t = [3] \<and> last t = Sys_close 3"
  using client_closes_after_transfer [of transfer_error_env "[''./client'', ''HELLO'']"]
  by (auto simp: client_env_fields)

text \<open>
  C6 as it was stated fails where \<open>connect\<close> returns \<open>-1\<close>: the socket was created, and
  the process exits with 1 without a \<open>close\<close> call.
\<close>

theorem refused_counterexample:
  "map_option exit_code (client_main refused_env [''./client'', ''HELLO'']) = Some (Some 1)
   \<and> map_option (\<lambda>p. syscalls (trace_of p)) (client_main refused_env [''./client'', ''HELLO''])
       = Some [Sys_socket 3, Sys_connect 3 (- 1)]"
  by (simp add: client_run [of refused_env] client_env_fields syscalls_def)

text \<open>
  C8, as the code has it. In a run of the client whose \<open>socket\<close> and \<open>connect\<close> calls
  succeed, standard output holds, in this order: the user's input and its length, the
  server's address and port, the socket's descriptor, the destination port, the length
  of the bytes handed to \<open>send\<close>; a line with the count \<open>send\<close> returned exactly when that
  count is positive, also when it is smaller than the length asked for; a line with the
  count \<open>recv\<close> returned exactly when that count is positive; the response and its
  length. Nothing is written to standard error, and the exit code is 0. In a pass of the
  server whose \<open>accept\<close> succeeds, whose response is defined and whose \<open>send\<close> returns,
  the length \<open>send\<close> is asked to write is printed right before the call and what it
  returned right after, and \<open>close\<close> follows.
\<close>

theorem transfer_counts_printed:
  fixes env :: client_env and argv :: "string list" and c :: connection
  defines "m \<equiv> take 255 (takeWhile (\<lambda>b. b \<noteq> NUL)
                    (if 1 < length argv then argv ! 1 else ''Hello from TCP Client!''))"
  defines "u \<equiv> takeWhile (\<lambda>b. b \<noteq> NUL)
                    (if 1 < length argv then argv ! 1 else ''Hello from TCP Client!'')"
  defines "n \<equiv> fst (sys_recv 255 (cl_incoming env))"
  defines "body \<equiv> takeWhile (\<lambda>b. b \<noteq> NUL) (snd (sys_recv 255 (cl_incoming env)))"
  assumes "0 \<le> cl_socket_ret env" and "0 \<le> cl_connect_ret env"
    and "0 \<le> accept_ret c" and "response_for c \<noteq> None" and "send_result c = Send_returns sent"
  shows "(\<exists>t. client_main env argv = Some (Exited 0 t)
            \<and> stderr_lines t = []
            \<and> payloads t = [m]
            \<and> stdout_lines t =
                [''  User Input: '' @ [CHR 0x27] @ u @ [CHR 0x27],
                 ''  Message Length: '' @ dec_int (int (length u)) @ '' bytes'',
                 ''  Server IP: 127.0.0.1'',
                 ''  Server Port: 9999'',
                 ''    Socket created: FD='' @ dec_int (cl_socket_ret env) @ '', Protocol=TCP/IPv4'',
                 ''      Destination Port: 9999'',
                 ''      Data Length: '' @ dec_int (int (length m)) @ '' bytes'']
                @ (if 0 < cl_send_ret env
                   then [''      '' @ check_mark @ '' Sent: '' @ dec_int (cl_send_ret env) @ '' bytes'']
                   else [])
                @ (if 0 < n
                   then [''    '' @ check_mark @ '' Received: '' @ dec_int n @ '' bytes'']
                   else [])
                @ [''  Message: '' @ [CHR 0x27] @ body @ [CHR 0x27],
                   ''  Length: '' @ dec_int (int (length body)) @ '' bytes''])
         \<and> (\<exists>pre r. response_for c = Some r
            \<and> accept_iteration s c = Some
                (Running (pre @ [Stdout (''  Data Size: '' @ dec_int (int (length r)) @ '' bytes''),
                                 Sys_send (accept_ret c) r sent,
                                 Stdout (''  Sent: '' @ dec_int sent @ '' bytes''),
                                 Sys_close (accept_ret c)])))"
proof -
  have client: "\<exists>t. client_main env argv = Some (Exited 0 t)
            \<and> stderr_lines t = []
            \<and> payloads t = [m]
            \<and> stdout_lines t =
                [''  User Input: '' @ [CHR 0x27] @ u @ [CHR 0x27],
                 ''  Message Length: '' @ dec_int (int (length u)) @ '' bytes'',
                 ''  Server IP: 127.0.0.1'',
                 ''  Server Port: 9999'',
                 ''    Socket created: FD='' @ dec_int (cl_socket_ret env) @ '', Protocol=TCP/IPv4'',
                 ''      Destination Port: 9999'',
                 ''      Data Length: '' @ dec_int (int (length m)) @ '' bytes'']
                @ (if 0 < cl_send_ret env
                   then [''      '' @ check_mark @ '' Sent: '' @ dec_int (cl_send_ret env) @ '' bytes'']
                   else [])
                @ (if 0 < n
                   then [''    '' @ check_mark @ '' Received: '' @ dec_int n @ '' bytes'']
                   else [])
                @ [''  Message: '' @ [CHR 0x27] @ body @ [CHR 0x27],
                   ''  Length: '' @ dec_int (int (length body)) @ '' bytes'']"
    using assms(5) assms(6)
    by (simp add: client_run [of env argv] stderr_lines_def stdout_lines_def payloads_def
        m_def u_def n_def body_def SERVER_IP_def SERVER_PORT_def dec_values)
  have rd: "reads_defined c" using assms(8) by (rule response_defined_reads)
  obtain pre r where r: "response_for c = Some r"
      and "accept_iteration s c = Some
            (Running (pre @ [Stdout (''Response message: '' @ r),
                             Stdout (''  Data Size: '' @ dec_int (int (length r)) @ '' bytes''),
                             Sys_send (accept_ret c) r sent,
                             Stdout (''  Sent: '' @ dec_int sent @ '' bytes''),
                             Sys_close (accept_ret c)]))"
    using pass_accepted [OF assms(7) rd, of s] assms(9) by auto
  then have "accept_iteration s c = Some
            (Running ((pre @ [Stdout (''Response message: '' @ r)])
                      @ [Stdout (''  Data Size: '' @ dec_int (int (length r)) @ '' bytes''),
                         Sys_send (accept_ret c) r sent,
                         Stdout (''  Sent: '' @ dec_int sent @ '' bytes''),
                         Sys_close (accept_ret c)]))"
    by simp
  with r have server: "\<exists>pre r. response_for c = Some r
            \<and> accept_iteration s c = Some
                (Running (pre @ [Stdout (''  Data Size: '' @ dec_int (int (length r)) @ '' bytes''),
                                 Sys_send (accept_ret c) r sent,
                                 Stdout (''  Sent: '' @ dec_int sent @ '' bytes''),
                                 Sys_close (accept_ret c)]))"
    by blast
  show ?thesis using client server by (rule conjI)
qed

text \<open>
  C8 at a client whose \<open>send\<close> returns 3 for 5 bytes and a server whose \<open>send\<close> returns
  \<open>-1\<close>.
\<close>

theorem transfer_counts_printed_witness:
  "(\<exists>t. client_main short_send_env [''./client'', ''HELLO''] = Some (Exited 0 t)
        \<and> stderr_lines t = []
        \<and> payloads t = [''HELLO'']
        \<and> stdout_lines t =
            [''  User Input: 'HELLO'' @ [CHR 0x27],
             ''  Message Length: 5 bytes'',
             ''  Server IP: 127.0.0.1'',
             ''  Server Port: 9999'',
             ''    Socket created: FD=3, Protocol=TCP/IPv4'',
             ''      Destination Port: 9999'',
             ''      Data Length: 5 bytes'',
             ''      '' @ check_mark @ '' Sent: 3 bytes'',
             ''    '' @ check_mark @ '' Received: 38 bytes'',
             ''  Message: 'SERVER ACK: Received 'HELLO' (5 bytes)'' @ [CHR 0x27],
             ''  Length: 38 bytes''])
   \<and> (\<exists>pre. accept_iteration 3 send_error_connection = Some
         (Running (pre @ [Stdout ''  Data Size: 38 bytes'',
                          Sys_send 4 ''SERVER ACK: Received 'HELLO' (5 bytes)'' (- 1),
                          Stdout ''  Sent: -1 bytes'',
                          Sys_close 4])))"
proof -
  have h: "0 \<le> cl_socket_ret short_send_env" "0 \<le> cl_connect_ret short_send_env"
    "0 \<le> accept_ret send_error_connection" "response_for send_error_connection \<noteq> None"
    by (simp_all add: client_env_fields connection_fields connection_responses)
  show ?thesis
    using transfer_counts_printed [OF h connection_fields(11), of "[''./client'', ''HELLO'']" 3]
    by (simp add: client_env_fields connection_fields connection_responses ack_text_values
        sys_recv_def dec_values)
qed

text \<open>
  C8 as it was stated fails where the client's \<open>send\<close> returns \<open>-1\<close>: 5 bytes were to be
  written and none was, no line says so, and the exit code is 0.
\<close>

theorem send_error_counterexample:
  "map_option exit_code (client_main send_error_env [''./client'', ''HELLO'']) = Some (Some 0)
   \<and> map_option (\<lambda>p. stderr_lines (trace_of p))
        (client_main send_error_env [''./client'', ''HELLO'']) = Some []
   \<and> map_option (\<lambda>p. payloads (trace_of p) )
        (client_main send_error_env [''./client'', ''HELLO'']) = Some [''HELLO'']
   \<and> map_option (\<lambda>p. stdout_lines (trace_of p))
        (client_main send_error_env [''./client'', ''HELLO''])
       = Some [''  User Input: 'HELLO'' @ [CHR 0x27],
               ''  Message Length: 5 bytes'',
               ''  Server IP: 127.0.0.1'',
               ''  Server Port: 9999'',
               ''    Socket created: FD=3, Protocol=TCP/IPv4'',
               ''      Destination Port: 9999'',
               ''      Data Length: 5 bytes'',
               ''    '' @ check_mark @ '' Received: 38 bytes'',
               ''  Message: 'SERVER ACK: Received 'HELLO' (5 bytes)'' @ [CHR 0x27],
               ''  Length: 38 bytes'']"
  by (simp add: client_run [of send_error_env] client_env_fields stderr_lines_def stdout_lines_def
      payloads_def sys_recv_def dec_values SERVER_IP_def SERVER_PORT_def)

end
